theory Spec2Isabelle
  imports Complex_Main "HOL-Library.Word"
begin

section \<open>Data model of cameraCalibrationWithUndistortion.cpp\<close>

text \<open>
  The program is a driver around the OpenCV library.  Everything the program itself
  computes (the object-point template, the accumulation of the correspondence set, the
  error bookkeeping, the control flow of \<open>calibrateCamera\<close> and \<open>main\<close>) is
  translated below.  The OpenCV and operating-system primitives it calls are not part of
  the program text; they are the fields of the record \<open>extern\<close> and stay arbitrary.
  A \<open>double\<close> or \<open>float\<close> value the library hands to the program is a \<open>real\<close> here, and
  the program's \<open>double\<close> arithmetic on such values is exact (no rounding, no NaN).  The
  one place where the program itself makes a \<open>float\<close> from an \<open>int\<close>, the coordinates of
  the template, is rounded as the machine rounds it (\<open>float_of_int\<close> below).
\<close>

record cv_size =
  width :: int
  height :: int

definition Size :: "int \<Rightarrow> int \<Rightarrow> cv_size" where
  "Size w h = \<lparr>width = w, height = h\<rparr>"

datatype point3f = Point3f real real real

datatype point2f = Point2f real real

fun z3 :: "point3f \<Rightarrow> real" where
  "z3 (Point3f x y z) = z"

text \<open>A \<open>cv::Mat\<close> of doubles, as the list of its rows.\<close>

type_synonym mat = "real list list"

definition mat_at :: "mat \<Rightarrow> nat \<Rightarrow> nat \<Rightarrow> real" where
  "mat_at m i j = m ! i ! j"

record CalibrationResults =
  cameraMatrix :: mat
  distCoeffs :: mat
  rvecs :: "mat list"
  tvecs :: "mat list"
  success :: bool
  imageSize :: cv_size
  checkerboardSize :: cv_size
  numImagesUsed :: int
  meanReprojectionError :: real

text \<open>
  \<open>results.numImagesUsed = objpoints.size()\<close> stores a \<open>size_t\<close> in an \<open>int\<close>: the value is
  reduced to 32 bits and read as two's complement.
\<close>

definition int_of_size_t :: "nat \<Rightarrow> int" where
  "int_of_size_t n = sint (word_of_nat n :: 32 word)"

section \<open>The object-point template (lines 106 to 111)\<close>

text \<open>
  \<open>cv::Point3f(j, i, 0)\<close> converts its \<open>int\<close> arguments to \<open>float\<close>, a binary format with a
  significand of 24 bits: the magnitude is rounded to the nearest multiple of the unit
  in the last place, a tie going to the even multiple.  \<open>ulp_of a u\<close> doubles \<open>u\<close> until
  \<open>a\<close> has fewer than \<open>2^24\<close> units.
\<close>

function ulp_of :: "int \<Rightarrow> int \<Rightarrow> int" where
  "ulp_of a u = (if u \<le> 0 \<or> a div u < 2 ^ 24 then u else ulp_of a (2 * u))"
  by pat_completeness auto
termination
proof (relation "measure (\<lambda>(a, u). nat (a div u))")
  show "wf (measure (\<lambda>(a, u). nat (a div u)))" by simp
next
  fix a u :: int
  assume "\<not> (u \<le> 0 \<or> a div u < 2 ^ 24)"
  then have u: "0 < u" and big: "2 ^ 24 \<le> a div u" by simp_all
  have "a div (2 * u) = a div u div 2"
    using u by (simp add: mult.commute zdiv_zmult2_eq)
  with big show "((a, 2 * u), (a, u)) \<in> measure (\<lambda>(a, u). nat (a div u))"
    by simp
qed

declare ulp_of.simps [simp del]

definition float_of_int :: "int \<Rightarrow> real" where
  "float_of_int k =
     (let a = \<bar>k\<bar>; u = ulp_of a 1; q = a div u; r = a mod u;
          m = (if 2 * r < u \<or> (2 * r = u \<and> even q) then q else q + 1)
      in of_int (sgn k * (m * u)))"

text \<open>
  \<^verbatim>\<open>for (int i = 0; i < h; i++) for (int j = 0; j < w; j++) objp.push_back(Point3f(j, i, 0));\<close>
  The inner loop appends one row, the outer loop runs it for every row index.
\<close>

function objp_row :: "int \<Rightarrow> int \<Rightarrow> int \<Rightarrow> point3f list \<Rightarrow> point3f list" where
  "objp_row w i j objp =
     (if j < w then objp_row w i (j + 1) (objp @ [Point3f (float_of_int j) (float_of_int i) 0])
      else objp)"
  by pat_completeness auto
termination
  by (relation "measure (\<lambda>(w, i, j, objp). nat (w - j))") auto

declare objp_row.simps [simp del]

function objp_rows :: "int \<Rightarrow> int \<Rightarrow> int \<Rightarrow> point3f list \<Rightarrow> point3f list" where
  "objp_rows w h i objp =
     (if i < h then objp_rows w h (i + 1) (objp_row w i 0 objp) else objp)"
  by pat_completeness auto
termination
  by (relation "measure (\<lambda>(w, h, i, objp). nat (h - i))") auto

declare objp_rows.simps [simp del]

definition build_objp :: "cv_size \<Rightarrow> point3f list" where
  "build_objp checkerboard = objp_rows (width checkerboard) (height checkerboard) 0 []"

section \<open>The primitives the program calls\<close>

datatype calib_flag = CALIB_CB_ADAPTIVE_THRESH | CALIB_CB_FAST_CHECK | CALIB_CB_NORMALIZE_IMAGE

datatype term_flag = EPS | MAX_ITER

record term_criteria =
  crit_type :: "term_flag set"
  maxCount :: int
  epsilon :: real

text \<open>What \<open>cv::calibrateCamera\<close> hands back: its \<open>double\<close> return value and its four outputs.\<close>

record solver_output =
  rms :: real
  out_cameraMatrix :: mat
  out_distCoeffs :: mat
  out_rvecs :: "mat list"
  out_tvecs :: "mat list"

text \<open>
  The OpenCV, filesystem and standard-library calls of the program, over an arbitrary
  type \<open>'img\<close> of images.  \<open>cv_findChessboardCorners\<close> returns the flag together with
  the corner list it leaves in its output argument; \<open>fs_create_directories\<close> is False
  where \<open>std::filesystem::create_directories\<close> throws, \<open>ofstream_opens\<close> is False where
  the output stream is not open after construction, and \<open>stoi\<close> is None where
  \<open>std::stoi\<close> throws.  Every other call is taken to return: an exception escaping
  from OpenCV would end the process before anything more is written.
\<close>

record 'img extern =
  cv_glob :: "string \<Rightarrow> string list"
  cv_imread :: "string \<Rightarrow> 'img"
  mat_empty :: "'img \<Rightarrow> bool"
  mat_cols :: "'img \<Rightarrow> int"
  mat_rows :: "'img \<Rightarrow> int"
  cv_cvtColor_BGR2GRAY :: "'img \<Rightarrow> 'img"
  cv_findChessboardCorners :: "'img \<Rightarrow> cv_size \<Rightarrow> calib_flag set \<Rightarrow> bool \<times> point2f list"
  cv_cornerSubPix :: "'img \<Rightarrow> point2f list \<Rightarrow> cv_size \<Rightarrow> cv_size \<Rightarrow> term_criteria \<Rightarrow> point2f list"
  cv_calibrateCamera :: "point3f list list \<Rightarrow> point2f list list \<Rightarrow> cv_size \<Rightarrow> solver_output"
  cv_projectPoints :: "point3f list \<Rightarrow> mat \<Rightarrow> mat \<Rightarrow> mat \<Rightarrow> mat \<Rightarrow> point2f list"
  cv_norm_L2 :: "point2f list \<Rightarrow> point2f list \<Rightarrow> real"
  cv_getOptimalNewCameraMatrix :: "mat \<Rightarrow> mat \<Rightarrow> cv_size \<Rightarrow> real \<Rightarrow> cv_size \<Rightarrow> mat"
  cv_undistort :: "'img \<Rightarrow> mat \<Rightarrow> mat \<Rightarrow> mat \<Rightarrow> 'img"
  fs_create_directories :: "string \<Rightarrow> bool"
  ofstream_opens :: "string \<Rightarrow> bool"
  stoi :: "string \<Rightarrow> int option"

section \<open>Output and the state of the outside world\<close>

text \<open>One constructor per output statement of the program, with the values it prints.\<close>

datatype msg =
    StartingCalibration
  | ImageDirectory string
  | CheckerboardSize int int
  | ErrNoImagesFound string
  | FoundImages nat
  | ProcessingImage nat nat string
  | WarnCouldNotRead string
  | CheckerboardFound string
  | CheckerboardNotFound string
  | ErrNoCornersDetected
  | ErrNoImageDimensions
  | PerformingCalibration nat
  | ErrCalibrationFailed
  | CalibrationSuccessful
  | CameraMatrixIs mat
  | DistortionCoefficientsAre mat
  | MeanReprojectionErrorIs real
  | ErrCouldNotWrite string
  | ResultsSavedTo string
  | ErrCannotShowUndistorted
  | ErrNoImagesForUndistortion
  | ErrCouldNotReadForUndistortion
  | DisplayingUndistorted
  | Usage string
  | ErrUnknownArgument string
  | CreatedImageDirectory string
  | PleasePlaceImages
  | ErrCouldNotCreateDirectory string

text \<open>The values \<open>saveCalibrationResultsToJSON\<close> writes, field by field.\<close>

record artifact =
  camera_matrix :: "real list list"
  distortion_coefficients :: "real list"
  rotation_vectors :: "real list list"
  translation_vectors :: "real list list"
  calibration_success :: bool
  image_dimensions_wh :: "int \<times> int"
  checkerboard_dimensions_wh :: "int \<times> int"
  num_images_used :: int
  mean_reprojection_error :: real

text \<open>
  The world a run acts on: the paths that exist, the files written, the two output
  streams, the windows shown, and a log of the calls made to the calibration solver
  with their arguments (the log is not program state: it records that line 185 ran).
\<close>

record 'img world =
  paths :: "string set"
  files :: "string \<rightharpoonup> artifact"
  cout :: "msg list"
  cerr :: "msg list"
  shown :: "(string \<times> 'img) list"
  solver_calls :: "(point3f list list \<times> point2f list list \<times> cv_size) list"

definition put_out :: "msg \<Rightarrow> 'img world \<Rightarrow> 'img world" where
  "put_out m w = w\<lparr>cout := cout w @ [m]\<rparr>"

definition put_err :: "msg \<Rightarrow> 'img world \<Rightarrow> 'img world" where
  "put_err m w = w\<lparr>cerr := cerr w @ [m]\<rparr>"

text \<open>\<open>std::filesystem::path(p).filename()\<close>: what follows the last separator.\<close>

definition filename :: "string \<Rightarrow> string" where
  "filename p = rev (takeWhile (\<lambda>c. c \<noteq> CHR ''/'') (rev p))"

section \<open>calibrateCamera (lines 89 to 214)\<close>

definition patterns :: "string list" where
  "patterns = [''*.jpg'', ''*.jpeg'', ''*.png'', ''*.bmp'', ''*.tiff'']"

text \<open>Lines 114 to 121: the matches of each pattern are appended in pattern order.\<close>

definition find_images :: "'img extern \<Rightarrow> string \<Rightarrow> string list" where
  "find_images ex imageDir =
     foldl (\<lambda>images pattern. images @ cv_glob ex (imageDir @ ''/'' @ pattern)) [] patterns"

text \<open>
  The variables of the detection loop that outlive one iteration (\<open>frame\<close>, \<open>gray\<close> and
  \<open>success\<close> are assigned anew before every use).
\<close>

record scan =
  objpoints :: "point3f list list"
  imgpoints :: "point2f list list"
  corner_pts :: "point2f list"
  imageSize_local :: cv_size
  imageSizeSet :: bool

definition scan_init :: scan where
  "scan_init = \<lparr>objpoints = [], imgpoints = [], corner_pts = [],
                 imageSize_local = Size 0 0, imageSizeSet = False\<rparr>"

definition detect_flags :: "calib_flag set" where
  "detect_flags = {CALIB_CB_ADAPTIVE_THRESH, CALIB_CB_FAST_CHECK, CALIB_CB_NORMALIZE_IMAGE}"

definition criteria :: term_criteria where
  "criteria = \<lparr>crit_type = {EPS, MAX_ITER}, maxCount = 30, epsilon = 0.001\<rparr>"

text \<open>The body of the loop of lines 137 to 171, for the image file at index \<open>i\<close> of \<open>n\<close>.\<close>

definition process_image ::
  "'img extern \<Rightarrow> cv_size \<Rightarrow> point3f list \<Rightarrow> nat \<Rightarrow> nat \<Rightarrow> string \<Rightarrow>
   scan \<times> 'img world \<Rightarrow> scan \<times> 'img world" where
  "process_image ex checkerboard objp n i file sw =
     (let (st, w) = sw;
          w1 = put_out (ProcessingImage (i + 1) n (filename file)) w;
          frame = cv_imread ex file
      in if mat_empty ex frame then (st, put_out (WarnCouldNotRead file) w1)
         else
           let gray = cv_cvtColor_BGR2GRAY ex frame;
               st1 = (if \<not> imageSizeSet st
                      then st\<lparr>imageSize_local := Size (mat_cols ex gray) (mat_rows ex gray),
                              imageSizeSet := True\<rparr>
                      else st);
               (found, corners) = cv_findChessboardCorners ex gray checkerboard detect_flags;
               st2 = st1\<lparr>corner_pts := corners\<rparr>
           in if found then
                let refined = cv_cornerSubPix ex gray (corner_pts st2) (Size 11 11)
                                (Size (- 1) (- 1)) criteria;
                    st3 = st2\<lparr>corner_pts := refined\<rparr>
                in (st3\<lparr>objpoints := objpoints st3 @ [objp],
                         imgpoints := imgpoints st3 @ [corner_pts st3]\<rparr>,
                    put_out (CheckerboardFound (filename file)) w1)
              else (st2, put_out (CheckerboardNotFound (filename file)) w1))"

fun detect_loop ::
  "'img extern \<Rightarrow> cv_size \<Rightarrow> point3f list \<Rightarrow> nat \<Rightarrow> nat \<Rightarrow> string list \<Rightarrow>
   scan \<times> 'img world \<Rightarrow> scan \<times> 'img world" where
  "detect_loop ex checkerboard objp n i [] sw = sw"
| "detect_loop ex checkerboard objp n i (file # rest) sw =
     detect_loop ex checkerboard objp n (Suc i) rest
       (process_image ex checkerboard objp n i file sw)"

text \<open>Lines 204 to 207: the error of observation \<open>i\<close>.\<close>

definition reproj_error ::
  "'img extern \<Rightarrow> CalibrationResults \<Rightarrow> point3f list list \<Rightarrow> point2f list list \<Rightarrow> nat \<Rightarrow> real" where
  "reproj_error ex results objpts imgpts i =
     (let imgpoints2 = cv_projectPoints ex (objpts ! i) (rvecs results ! i) (tvecs results ! i)
                         (cameraMatrix results) (distCoeffs results)
      in cv_norm_L2 ex (imgpts ! i) imgpoints2 / real (length imgpoints2))"

text \<open>Lines 202 to 209: the loop that sums the errors, from index \<open>i\<close> on.\<close>

function total_error_loop ::
  "'img extern \<Rightarrow> CalibrationResults \<Rightarrow> point3f list list \<Rightarrow> point2f list list \<Rightarrow>
   nat \<Rightarrow> real \<Rightarrow> real" where
  "total_error_loop ex results objpts imgpts i totalError =
     (if i < length objpts
      then total_error_loop ex results objpts imgpts (Suc i)
             (totalError + reproj_error ex results objpts imgpts i)
      else totalError)"
  by pat_completeness auto
termination
  by (relation "measure (\<lambda>(ex, results, objpts, imgpts, i, totalError). length objpts - i)") auto

declare total_error_loop.simps [simp del]

definition results_init :: "cv_size \<Rightarrow> CalibrationResults" where
  "results_init checkerboard =
     \<lparr>cameraMatrix = [], distCoeffs = [], rvecs = [], tvecs = [], success = False,
      imageSize = Size 0 0, checkerboardSize = checkerboard, numImagesUsed = 0,
      meanReprojectionError = 0\<rparr>"

text \<open>
  The state of the detection loop when it ends, for the images found in the directory.
\<close>

definition detect_all ::
  "'img extern \<Rightarrow> string \<Rightarrow> cv_size \<Rightarrow> 'img world \<Rightarrow> scan \<times> 'img world" where
  "detect_all ex imageDir checkerboard w =
     (let images = find_images ex imageDir
      in detect_loop ex checkerboard (build_objp checkerboard) (length images) 0 images
           (scan_init, w))"

text \<open>
  Line 185 assigns the \<open>double\<close> that \<open>cv::calibrateCamera\<close> returns to the \<open>bool\<close>
  field \<open>success\<close>: the field is true exactly when the returned value is not zero.
\<close>

definition calibrateCamera ::
  "'img extern \<Rightarrow> string \<Rightarrow> cv_size \<Rightarrow> 'img world \<Rightarrow> CalibrationResults \<times> 'img world" where
  "calibrateCamera ex imageDir checkerboard w0 =
     (let w1 = put_out (CheckerboardSize (width checkerboard) (height checkerboard))
                 (put_out (ImageDirectory imageDir) (put_out StartingCalibration w0));
          results = results_init checkerboard;
          images = find_images ex imageDir
      in if images = [] then (results, put_err (ErrNoImagesFound imageDir) w1)
         else
           let w2 = put_out (FoundImages (length images)) w1;
               (st, w3) = detect_all ex imageDir checkerboard w2
           in if objpoints st = [] \<or> imgpoints st = []
              then (results, put_err ErrNoCornersDetected w3)
              else if \<not> imageSizeSet st
              then (results, put_err ErrNoImageDimensions w3)
              else
                let w4 = put_out (PerformingCalibration (length (objpoints st))) w3;
                    sol = cv_calibrateCamera ex (objpoints st) (imgpoints st) (imageSize_local st);
                    w5 = w4\<lparr>solver_calls := solver_calls w4 @
                               [(objpoints st, imgpoints st, imageSize_local st)]\<rparr>;
                    results1 = results\<lparr>success := (rms sol \<noteq> 0),
                                 cameraMatrix := out_cameraMatrix sol,
                                 distCoeffs := out_distCoeffs sol,
                                 rvecs := out_rvecs sol, tvecs := out_tvecs sol\<rparr>
                in if \<not> success results1 then (results1, put_err ErrCalibrationFailed w5)
                   else
                     let results2 = results1\<lparr>imageSize := imageSize_local st,
                                      numImagesUsed := int_of_size_t (length (objpoints st))\<rparr>;
                         w6 = put_out (DistortionCoefficientsAre (distCoeffs results2))
                                (put_out (CameraMatrixIs (cameraMatrix results2))
                                   (put_out CalibrationSuccessful w5));
                         totalError = total_error_loop ex results2 (objpoints st) (imgpoints st) 0 0;
                         results3 = results2\<lparr>meanReprojectionError :=
                                      totalError / real (length (objpoints st))\<rparr>
                     in (results3,
                         put_out (MeanReprojectionErrorIs (meanReprojectionError results3)) w6))"

section \<open>saveCalibrationResultsToJSON (lines 24 to 87)\<close>

definition artifact_of :: "CalibrationResults \<Rightarrow> artifact" where
  "artifact_of results =
     \<lparr>camera_matrix =
        map (\<lambda>i. map (\<lambda>j. mat_at (cameraMatrix results) i j) [0..<3]) [0..<3],
      distortion_coefficients =
        map (\<lambda>i. mat_at (distCoeffs results) i 0) [0..<length (distCoeffs results)],
      rotation_vectors =
        map (\<lambda>i. map (\<lambda>j. mat_at (rvecs results ! i) j 0) [0..<3]) [0..<length (rvecs results)],
      translation_vectors =
        map (\<lambda>i. map (\<lambda>j. mat_at (tvecs results ! i) j 0) [0..<3]) [0..<length (tvecs results)],
      calibration_success = success results,
      image_dimensions_wh = (width (imageSize results), height (imageSize results)),
      checkerboard_dimensions_wh =
        (width (checkerboardSize results), height (checkerboardSize results)),
      num_images_used = numImagesUsed results,
      mean_reprojection_error = meanReprojectionError results\<rparr>"

text \<open>
  The results are a \<open>const\<close> reference: the function changes the world only.  When the
  stream is not open it reports on \<open>cerr\<close> and returns (lines 26 to 29).
\<close>

definition saveCalibrationResultsToJSON ::
  "'img extern \<Rightarrow> CalibrationResults \<Rightarrow> string \<Rightarrow> 'img world \<Rightarrow> 'img world" where
  "saveCalibrationResultsToJSON ex results outputFile w =
     (if \<not> ofstream_opens ex outputFile then put_err (ErrCouldNotWrite outputFile) w
      else put_out (ResultsSavedTo outputFile)
             (w\<lparr>files := (files w)(outputFile \<mapsto> artifact_of results),
                paths := insert outputFile (paths w)\<rparr>))"

section \<open>showUndistortedImage (lines 216 to 258)\<close>

definition showUndistortedImage ::
  "'img extern \<Rightarrow> CalibrationResults \<Rightarrow> string \<Rightarrow> 'img world \<Rightarrow> 'img world" where
  "showUndistortedImage ex results imageDir w =
     (if \<not> success results then put_err ErrCannotShowUndistorted w
      else
        let images = find_images ex imageDir
        in if images = [] then put_err ErrNoImagesForUndistortion w
           else
             let img = cv_imread ex (hd images)
             in if mat_empty ex img then put_err ErrCouldNotReadForUndistortion w
                else
                  let imageSize = Size (mat_cols ex img) (mat_rows ex img);
                      newCameraMatrix =
                        cv_getOptimalNewCameraMatrix ex (cameraMatrix results) (distCoeffs results)
                          imageSize 1 imageSize;
                      dst = cv_undistort ex img (cameraMatrix results) (distCoeffs results)
                              newCameraMatrix;
                      w1 = put_out DisplayingUndistorted w
                  in w1\<lparr>shown := shown w1 @
                           [(''Original Image'', img), (''Undistorted Image'', dst)]\<rparr>)"

section \<open>main (lines 271 to 327)\<close>

record config =
  imageDir :: string
  outputFile :: string
  checkerboardWidth :: int
  checkerboardHeight :: int
  showDisplay :: bool

definition config_default :: config where
  "config_default = \<lparr>imageDir = ''./images'', outputFile = ''calibration_results.json'',
                      checkerboardWidth = 7, checkerboardHeight = 10, showDisplay = True\<rparr>"

text \<open>How the process ends: \<open>main\<close> returns a code, or an exception nobody catches ends it.\<close>

datatype exit = Exit int | Uncaught

text \<open>
  The argument loop of lines 279 to 300 over \<open>argv[1..]\<close>; \<open>i + 1 < argc\<close> says that an
  argument follows.  Inl is an early return of \<open>main\<close>.
\<close>

function parse_args ::
  "'img extern \<Rightarrow> string \<Rightarrow> string list \<Rightarrow> config \<Rightarrow> 'img world \<Rightarrow> (exit \<times> 'img world) + config" where
  "parse_args ex prog [] cfg w = Inr cfg"
| "parse_args ex prog (arg # rest) cfg w =
     (if arg = ''-h'' \<or> arg = ''--help'' then Inl (Exit 0, put_out (Usage prog) w)
      else if (arg = ''-i'' \<or> arg = ''--image_dir'') \<and> rest \<noteq> []
      then parse_args ex prog (tl rest) (cfg\<lparr>imageDir := hd rest\<rparr>) w
      else if (arg = ''-o'' \<or> arg = ''--output_file'') \<and> rest \<noteq> []
      then parse_args ex prog (tl rest) (cfg\<lparr>outputFile := hd rest\<rparr>) w
      else if (arg = ''-cw'' \<or> arg = ''--checkerboard_width'') \<and> rest \<noteq> []
      then (case stoi ex (hd rest) of
              None \<Rightarrow> Inl (Uncaught, w)
            | Some v \<Rightarrow> parse_args ex prog (tl rest) (cfg\<lparr>checkerboardWidth := v\<rparr>) w)
      else if (arg = ''-ch'' \<or> arg = ''--checkerboard_height'') \<and> rest \<noteq> []
      then (case stoi ex (hd rest) of
              None \<Rightarrow> Inl (Uncaught, w)
            | Some v \<Rightarrow> parse_args ex prog (tl rest) (cfg\<lparr>checkerboardHeight := v\<rparr>) w)
      else if arg = ''--no-display''
      then parse_args ex prog rest (cfg\<lparr>showDisplay := False\<rparr>) w
      else Inl (Exit 1, put_out (Usage prog) (put_err (ErrUnknownArgument arg) w)))"
  by pat_completeness auto
termination
  by (relation "measure (\<lambda>(ex, prog, args, cfg, w). length args)") auto

declare parse_args.simps [simp del]

text \<open>
  Lines 302 to 326, with the parsed configuration: the exit code, the world the run
  leaves, and the results of the calibration when one was run.
\<close>

definition main_configured ::
  "'img extern \<Rightarrow> config \<Rightarrow> 'img world \<Rightarrow> int \<times> 'img world \<times> CalibrationResults option" where
  "main_configured ex cfg w =
     (if imageDir cfg \<notin> paths w then
        (if fs_create_directories ex (imageDir cfg)
         then (0, put_out PleasePlaceImages
                    (put_out (CreatedImageDirectory (imageDir cfg))
                       (w\<lparr>paths := insert (imageDir cfg) (paths w)\<rparr>)), None)
         else (1, put_err (ErrCouldNotCreateDirectory (imageDir cfg)) w, None))
      else
        let checkerboard = Size (checkerboardWidth cfg) (checkerboardHeight cfg);
            (results, w1) = calibrateCamera ex (imageDir cfg) checkerboard w;
            w3 = (if success results then
                    let w2 = saveCalibrationResultsToJSON ex results (outputFile cfg) w1
                    in if showDisplay cfg then showUndistortedImage ex results (imageDir cfg) w2
                       else w2
                  else w1)
        in (if success results then 0 else 1, w3, Some results))"

definition main :: "'img extern \<Rightarrow> string \<Rightarrow> string list \<Rightarrow> 'img world \<Rightarrow> exit \<times> 'img world" where
  "main ex prog args w =
     (case parse_args ex prog args config_default w of
        Inl early \<Rightarrow> early
      | Inr cfg \<Rightarrow> (let (code, w', r) = main_configured ex cfg w in (Exit code, w')))"

section \<open>Names for what the detection loop computes per image file\<close>

text \<open>
  The expressions the loop body evaluates for one file, named so that the loop's result
  can be described: whether the file was read, its grayscale image and that image's
  dimensions, the detector's answer, and the refined corner list.
\<close>

definition readable :: "'img extern \<Rightarrow> string \<Rightarrow> bool" where
  "readable ex file = (\<not> mat_empty ex (cv_imread ex file))"

definition gray_of :: "'img extern \<Rightarrow> string \<Rightarrow> 'img" where
  "gray_of ex file = cv_cvtColor_BGR2GRAY ex (cv_imread ex file)"

definition gray_size :: "'img extern \<Rightarrow> string \<Rightarrow> cv_size" where
  "gray_size ex file = Size (mat_cols ex (gray_of ex file)) (mat_rows ex (gray_of ex file))"

definition detection :: "'img extern \<Rightarrow> cv_size \<Rightarrow> string \<Rightarrow> bool \<times> point2f list" where
  "detection ex checkerboard file =
     cv_findChessboardCorners ex (gray_of ex file) checkerboard detect_flags"

definition detected :: "'img extern \<Rightarrow> cv_size \<Rightarrow> string \<Rightarrow> bool" where
  "detected ex checkerboard file = (readable ex file \<and> fst (detection ex checkerboard file))"

definition refined :: "'img extern \<Rightarrow> cv_size \<Rightarrow> string \<Rightarrow> point2f list" where
  "refined ex checkerboard file =
     cv_cornerSubPix ex (gray_of ex file) (snd (detection ex checkerboard file))
       (Size 11 11) (Size (- 1) (- 1)) criteria"

text \<open>What the solver returns on the correspondence set the detection loop has built.\<close>

definition solved :: "'img extern \<Rightarrow> string \<Rightarrow> cv_size \<Rightarrow> 'img world \<Rightarrow> solver_output" where
  "solved ex dir cb w =
     (let st = fst (detect_all ex dir cb w)
      in cv_calibrateCamera ex (objpoints st) (imgpoints st) (imageSize_local st))"

text \<open>The files whose detection succeeded, in the order of enumeration.\<close>

definition used_images :: "'img extern \<Rightarrow> string \<Rightarrow> cv_size \<Rightarrow> string list" where
  "used_images ex dir cb = filter (detected ex cb) (find_images ex dir)"

section \<open>The Euclidean norm\<close>

text \<open>
  The L2 norm of the difference of two point sequences, as the specification words it:
  the square root of the sum of the squared coordinate differences.  It is what
  \<open>cv::norm\<close> with \<open>NORM_L2\<close> is documented to return.
\<close>

fun sq_dist :: "point2f \<Rightarrow> point2f \<Rightarrow> real" where
  "sq_dist (Point2f a b) (Point2f c d) = (a - c)\<^sup>2 + (b - d)\<^sup>2"

definition l2_norm_diff :: "point2f list \<Rightarrow> point2f list \<Rightarrow> real" where
  "l2_norm_diff ps qs = sqrt (sum_list (map (\<lambda>(p, q). sq_dist p q) (zip ps qs)))"

section \<open>A small concrete environment\<close>

text \<open>
  An image is absent or a picture with its columns, its rows and whether a checkerboard is
  visible.  The detector of this environment finds a full grid exactly on the pictures
  that show one, the solver reports the given value, and all files match \<open>*.png\<close>.
\<close>

datatype demo_image = NoImage | Picture int int bool

fun project_flat :: "point3f \<Rightarrow> point2f" where
  "project_flat (Point3f x y z) = Point2f x y"

definition demo_extern ::
  "(string \<times> demo_image) list \<Rightarrow> real \<Rightarrow> bool \<Rightarrow> bool \<Rightarrow> demo_image extern" where
  "demo_extern dir_content rms_value can_create can_open =
     \<lparr>cv_glob = (\<lambda>pattern. if pattern = ''./images/*.png'' then map fst dir_content else []),
      cv_imread = (\<lambda>file. case map_of dir_content file of Some img \<Rightarrow> img | None \<Rightarrow> NoImage),
      mat_empty = (\<lambda>img. img = NoImage),
      mat_cols = (\<lambda>img. case img of Picture c r b \<Rightarrow> c | NoImage \<Rightarrow> 0),
      mat_rows = (\<lambda>img. case img of Picture c r b \<Rightarrow> r | NoImage \<Rightarrow> 0),
      cv_cvtColor_BGR2GRAY = (\<lambda>img. img),
      cv_findChessboardCorners = (\<lambda>img cb flags.
         case img of
           Picture c r b \<Rightarrow>
             if b then (True, replicate (nat (width cb * height cb)) (Point2f 0 0))
             else (False, [Point2f 5 5])
         | NoImage \<Rightarrow> (False, [])),
      cv_cornerSubPix = (\<lambda>img corners win zero crit. corners),
      cv_calibrateCamera = (\<lambda>ops ips sz.
         \<lparr>rms = rms_value,
          out_cameraMatrix = [[1, 0, 0], [0, 1, 0], [0, 0, 1]],
          out_distCoeffs = [[0], [0], [0], [0], [0]],
          out_rvecs = map (\<lambda>op. [[0], [0], [0]]) ops,
          out_tvecs = map (\<lambda>op. [[0], [0], [0]]) ops\<rparr>),
      cv_projectPoints = (\<lambda>ops rv tv K D. map project_flat ops),
      cv_norm_L2 = l2_norm_diff,
      cv_getOptimalNewCameraMatrix = (\<lambda>K D sz alpha newsz. K),
      cv_undistort = (\<lambda>img K D newK. img),
      fs_create_directories = (\<lambda>dir. can_create),
      ofstream_opens = (\<lambda>file. can_open),
      stoi = (\<lambda>s. None)\<rparr>"

definition demo_dir :: "(string \<times> demo_image) list" where
  "demo_dir = [(''./images/a.png'', Picture 640 480 True),
               (''./images/b.png'', Picture 640 480 False),
               (''./images/c.png'', NoImage)]"

definition mixed_dir :: "(string \<times> demo_image) list" where
  "mixed_dir = [(''./images/a.png'', Picture 640 480 True),
                (''./images/b.png'', Picture 800 600 True)]"

definition world0 :: "demo_image world" where
  "world0 = \<lparr>paths = {''./images''}, files = Map.empty, cout = [], cerr = [], shown = [],
             solver_calls = []\<rparr>"

definition blank_dir :: "(string \<times> demo_image) list" where
  "blank_dir = [(''./images/b.png'', Picture 640 480 False), (''./images/c.png'', NoImage)]"

text \<open>A configuration whose image directory does not exist in \<open>world0\<close>.\<close>

definition missing_cfg :: config where
  "missing_cfg = config_default\<lparr>imageDir := ''./missing''\<rparr>"

section \<open>The subpixel refiner\<close>









section \<open>The object-point template in closed form\<close>

lemma objp_row_eq:
  "objp_row w i j objp = objp @ map (\<lambda>j. Point3f (float_of_int j) (float_of_int i) 0) [j..w - 1]"
proof (induction w i j objp rule: objp_row.induct)
  case (1 w i j objp)
  show ?case
  proof (cases "j < w")
    case True
    then have u: "[j..w - 1] = j # [j + 1..w - 1]" by (simp add: upto_rec1)
    from True 1 show ?thesis by (simp add: objp_row.simps [of w i j] u)
  next
    case False
    then show ?thesis by (simp add: objp_row.simps [of w i j])
  qed
qed

lemma objp_rows_eq:
  "objp_rows w h i objp =
     objp @ concat (map (\<lambda>i. map (\<lambda>j. Point3f (float_of_int j) (float_of_int i) 0) [0..w - 1]) [i..h - 1])"
proof (induction w h i objp rule: objp_rows.induct)
  case (1 w h i objp)
  show ?case
  proof (cases "i < h")
    case True
    then have u: "[i..h - 1] = i # [i + 1..h - 1]" by (simp add: upto_rec1)
    from True 1 show ?thesis by (simp add: objp_rows.simps [of w h i] u objp_row_eq)
  next
    case False
    then show ?thesis by (simp add: objp_rows.simps [of w h i])
  qed
qed

lemma nth_concat_uniform:
  "\<forall>r \<in> set rs. length r = n \<Longrightarrow> k < length rs \<Longrightarrow> j < n \<Longrightarrow>
   concat rs ! (k * n + j) = rs ! k ! j"
proof (induction rs arbitrary: k)
  case Nil
  then show ?case by simp
next
  case (Cons r rs)
  show ?case
  proof (cases k)
    case 0
    with Cons.prems show ?thesis by (simp add: nth_append)
  next
    case (Suc k')
    with Cons.prems have "concat rs ! (k' * n + j) = rs ! k' ! j"
      by (intro Cons.IH) auto
    moreover have "\<not> (n + k' * n + j < n)" using Cons.prems by simp
    ultimately show ?thesis using Suc Cons.prems by (simp add: nth_append add.assoc)
  qed
qed

lemma length_concat_uniform:
  "\<forall>r \<in> set rs. length r = n \<Longrightarrow> length (concat rs) = length rs * n"
  by (induction rs) auto

lemma build_objp_eq:
  "build_objp cb = concat (map (\<lambda>i. map (\<lambda>j. Point3f (float_of_int j) (float_of_int i) 0) [0..width cb - 1]) [0..height cb - 1])"
  by (simp add: build_objp_def objp_rows_eq)

lemma length_build_objp: "length (build_objp cb) = nat (height cb) * nat (width cb)"
  by (simp add: build_objp_eq length_concat_uniform [where n = "nat (width cb)"])

lemma nth_build_objp:
  assumes "0 \<le> i" "i < height cb" "0 \<le> j" "j < width cb"
  shows "build_objp cb ! nat (i * width cb + j) = Point3f (float_of_int j) (float_of_int i) 0"
proof -
  let ?rows = "map (\<lambda>i. map (\<lambda>j. Point3f (float_of_int j) (float_of_int i) 0) [0..width cb - 1]) [0..height cb - 1]"
  have "concat ?rows ! (nat i * nat (width cb) + nat j) = ?rows ! nat i ! nat j"
    using assms by (intro nth_concat_uniform) auto
  moreover have "nat i * nat (width cb) + nat j = nat (i * width cb + j)"
    using assms by (simp add: nat_add_distrib nat_mult_distrib)
  moreover have "?rows ! nat i ! nat j = Point3f (float_of_int j) (float_of_int i) 0"
    using assms by simp
  ultimately show ?thesis by (simp add: build_objp_eq)
qed

lemma float_of_int_exact:
  assumes "\<bar>k\<bar> \<le> 2 ^ 24"
  shows "float_of_int k = of_int k"
proof (cases "\<bar>k\<bar> < 2 ^ 24")
  case True
  then have "ulp_of \<bar>k\<bar> 1 = 1"
    by (simp add: ulp_of.simps [of "\<bar>k\<bar>" 1])
  then have "float_of_int k = of_int (sgn k * \<bar>k\<bar>)"
    by (simp add: float_of_int_def Let_def)
  then show ?thesis by (simp add: mult_sgn_abs)
next
  case False
  with assms have a: "\<bar>k\<bar> = 2 ^ 24" by simp
  have "ulp_of (2 ^ 24) 1 = 2"
    by (simp add: ulp_of.simps [of 16777216 1] ulp_of.simps [of 16777216 2])
  then have "float_of_int k = of_int (sgn k * \<bar>k\<bar>)"
    by (simp add: float_of_int_def Let_def a)
  then show ?thesis by (simp add: mult_sgn_abs)
qed

lemma float_of_int_tie: "float_of_int 16777217 = 16777216"
  by (simp add: float_of_int_def Let_def ulp_of.simps [of 16777217 1] ulp_of.simps [of 16777217 2])

lemma nth_build_objp_exact:
  assumes "0 \<le> i" "i < height cb" "0 \<le> j" "j < width cb"
    and "width cb \<le> 2 ^ 24 + 1" "height cb \<le> 2 ^ 24 + 1"
  shows "build_objp cb ! nat (i * width cb + j) = Point3f (of_int j) (of_int i) 0"
proof -
  have "\<bar>i\<bar> \<le> 2 ^ 24" "\<bar>j\<bar> \<le> 2 ^ 24" using assms by simp_all
  then show ?thesis
    using nth_build_objp [of i cb j] assms by (simp add: float_of_int_exact)
qed

lemma z_build_objp: "p \<in> set (build_objp cb) \<Longrightarrow> z3 p = 0"
  by (auto simp: build_objp_eq)

section \<open>What the detection loop leaves\<close>

lemma fst_process_image:
  "fst (process_image ex cb objp n i file sw) =
     (let st = fst sw in
      if \<not> readable ex file then st
      else let st1 = (if imageSizeSet st then st
                      else st\<lparr>imageSize_local := gray_size ex file, imageSizeSet := True\<rparr>)
           in if fst (detection ex cb file)
              then st1\<lparr>corner_pts := refined ex cb file,
                       objpoints := objpoints st @ [objp],
                       imgpoints := imgpoints st @ [refined ex cb file]\<rparr>
              else st1\<lparr>corner_pts := snd (detection ex cb file)\<rparr>)"
  by (cases sw)
     (simp add: process_image_def readable_def gray_of_def gray_size_def detection_def
        refined_def Let_def split: prod.splits)

lemma snd_process_image:
  "snd (process_image ex cb objp n i file sw) =
     (snd sw)\<lparr>cout := cout (snd (process_image ex cb objp n i file sw))\<rparr>"
  by (cases sw)
     (simp add: process_image_def put_out_def Let_def split: prod.splits)

lemma snd_detect_loop:
  "snd (detect_loop ex cb objp n i images sw) =
     (snd sw)\<lparr>cout := cout (snd (detect_loop ex cb objp n i images sw))\<rparr>"
proof (induction images arbitrary: sw i)
  case Nil
  show ?case by simp
next
  case (Cons f rest)
  let ?sw1 = "process_image ex cb objp n i f sw"
  let ?c = "cout (snd (detect_loop ex cb objp n (Suc i) rest ?sw1))"
  have "snd (detect_loop ex cb objp n (Suc i) rest ?sw1) = (snd ?sw1)\<lparr>cout := ?c\<rparr>"
    by (rule Cons.IH)
  also have "\<dots> = ((snd sw)\<lparr>cout := cout (snd ?sw1)\<rparr>)\<lparr>cout := ?c\<rparr>"
    using snd_process_image [of ex cb objp n i f sw] by simp
  also have "\<dots> = (snd sw)\<lparr>cout := ?c\<rparr>" by simp
  finally show ?case by simp
qed

lemma imgpoints_detect_loop:
  "imgpoints (fst (detect_loop ex cb objp n i images sw)) =
     imgpoints (fst sw) @ map (refined ex cb) (filter (detected ex cb) images)"
  by (induction images arbitrary: sw i) (simp_all add: fst_process_image detected_def Let_def)

lemma objpoints_detect_loop:
  "objpoints (fst (detect_loop ex cb objp n i images sw)) =
     objpoints (fst sw) @ replicate (length (filter (detected ex cb) images)) objp"
  by (induction images arbitrary: sw i)
     (simp_all add: fst_process_image detected_def Let_def replicate_append_same)

lemma imageSizeSet_detect_loop:
  "imageSizeSet (fst (detect_loop ex cb objp n i images sw)) =
     (imageSizeSet (fst sw) \<or> filter (readable ex) images \<noteq> [])"
  by (induction images arbitrary: sw i) (simp_all add: fst_process_image Let_def)

lemma imageSize_detect_loop:
  "imageSize_local (fst (detect_loop ex cb objp n i images sw)) =
     (if imageSizeSet (fst sw) then imageSize_local (fst sw)
      else case filter (readable ex) images of
             [] \<Rightarrow> imageSize_local (fst sw)
           | file # rest \<Rightarrow> gray_size ex file)"
  by (induction images arbitrary: sw i)
     (simp_all add: fst_process_image Let_def split: list.splits)

lemma fst_detect_loop_cong:
  "fst sw = fst sw' \<Longrightarrow>
   fst (detect_loop ex cb objp n i images sw) = fst (detect_loop ex cb objp n' i' images sw')"
proof (induction images arbitrary: sw sw' i i')
  case Nil
  then show ?case by simp
next
  case (Cons f rest)
  have "fst (process_image ex cb objp n i f sw) = fst (process_image ex cb objp n' i' f sw')"
    using Cons.prems by (simp add: fst_process_image)
  then show ?case using Cons.IH by simp
qed

lemma fst_detect_all: "fst (detect_all ex dir cb w) = fst (detect_all ex dir cb w')"
  unfolding detect_all_def Let_def by (rule fst_detect_loop_cong) simp

lemma snd_detect_all:
  "snd (detect_all ex dir cb w) = w\<lparr>cout := cout (snd (detect_all ex dir cb w))\<rparr>"
  using snd_detect_loop [of ex cb "build_objp cb" "length (find_images ex dir)" 0 "find_images ex dir" "(scan_init, w)"]
  by (simp add: detect_all_def Let_def)

lemma imgpoints_detect_all:
  "imgpoints (fst (detect_all ex dir cb w)) =
     map (refined ex cb) (filter (detected ex cb) (find_images ex dir))"
  by (simp add: detect_all_def Let_def imgpoints_detect_loop scan_init_def)

lemma objpoints_detect_all:
  "objpoints (fst (detect_all ex dir cb w)) =
     replicate (length (imgpoints (fst (detect_all ex dir cb w)))) (build_objp cb)"
  by (simp add: imgpoints_detect_all) (simp add: detect_all_def Let_def objpoints_detect_loop scan_init_def)

lemma imageSizeSet_detect_all:
  "imgpoints (fst (detect_all ex dir cb w)) \<noteq> [] \<Longrightarrow> imageSizeSet (fst (detect_all ex dir cb w))"
proof -
  assume "imgpoints (fst (detect_all ex dir cb w)) \<noteq> []"
  then obtain f where "f \<in> set (find_images ex dir)" "detected ex cb f"
    by (auto simp: imgpoints_detect_all filter_empty_conv)
  then have "filter (readable ex) (find_images ex dir) \<noteq> []"
    by (auto simp: filter_empty_conv detected_def)
  then show ?thesis
    by (simp add: detect_all_def Let_def imageSizeSet_detect_loop)
qed

lemma imageSize_detect_all:
  "imageSize_local (fst (detect_all ex dir cb w)) =
     (case filter (readable ex) (find_images ex dir) of
        [] \<Rightarrow> Size 0 0 | f # rest \<Rightarrow> gray_size ex f)"
  by (simp add: detect_all_def Let_def imageSize_detect_loop scan_init_def split: list.splits)

lemma fst_calibrateCamera:
  "fst (calibrateCamera ex dir cb w) =
     (let st = fst (detect_all ex dir cb w); sol = solved ex dir cb w;
          r1 = (results_init cb)\<lparr>success := (rms sol \<noteq> 0),
                 cameraMatrix := out_cameraMatrix sol, distCoeffs := out_distCoeffs sol,
                 rvecs := out_rvecs sol, tvecs := out_tvecs sol\<rparr>;
          r2 = r1\<lparr>imageSize := imageSize_local st,
                 numImagesUsed := int_of_size_t (length (objpoints st))\<rparr>
      in if find_images ex dir = [] \<or> imgpoints st = [] then results_init cb
         else if rms sol = 0 then r1
         else r2\<lparr>meanReprojectionError :=
                  total_error_loop ex r2 (objpoints st) (imgpoints st) 0 0 /
                  real (length (objpoints st))\<rparr>)"
proof -
  obtain st w3 where d: "detect_all ex dir cb
      (put_out (FoundImages (length (find_images ex dir)))
        (put_out (CheckerboardSize (width cb) (height cb))
          (put_out (ImageDirectory dir) (put_out StartingCalibration w)))) = (st, w3)"
    by (cases "detect_all ex dir cb
      (put_out (FoundImages (length (find_images ex dir)))
        (put_out (CheckerboardSize (width cb) (height cb))
          (put_out (ImageDirectory dir) (put_out StartingCalibration w))))")
  have st: "fst (detect_all ex dir cb w) = st"
    using fst_detect_all [of ex dir cb w] d by (metis fst_conv)
  have o: "objpoints st = replicate (length (imgpoints st)) (build_objp cb)"
    using objpoints_detect_all [of ex dir cb w] st by simp
  have s: "imgpoints st \<noteq> [] \<Longrightarrow> imageSizeSet st"
    using imageSizeSet_detect_all [of ex dir cb w] st by simp
  have e: "(objpoints st = []) = (imgpoints st = [])"
    using o by (metis length_0_conv length_replicate)
  show ?thesis
    using s e by (simp add: calibrateCamera_def Let_def d st solved_def)
qed

section \<open>What calibrateCamera returns and does\<close>

lemma snd_calibrateCamera:
  "snd (calibrateCamera ex dir cb w) =
     w\<lparr>cout := cout (snd (calibrateCamera ex dir cb w)),
       cerr := cerr w @
         (let st = fst (detect_all ex dir cb w) in
          if find_images ex dir = [] then [ErrNoImagesFound dir]
          else if imgpoints st = [] then [ErrNoCornersDetected]
          else if rms (solved ex dir cb w) = 0 then [ErrCalibrationFailed] else []),
       solver_calls := solver_calls w @
         (let st = fst (detect_all ex dir cb w) in
          if find_images ex dir = [] \<or> imgpoints st = [] then []
          else [(objpoints st, imgpoints st, imageSize_local st)])\<rparr>"
proof -
  define w2 where "w2 = put_out (FoundImages (length (find_images ex dir)))
        (put_out (CheckerboardSize (width cb) (height cb))
          (put_out (ImageDirectory dir) (put_out StartingCalibration w)))"
  obtain st w3 where d: "detect_all ex dir cb w2 = (st, w3)"
    by (cases "detect_all ex dir cb w2")
  have st: "fst (detect_all ex dir cb w) = st"
    using fst_detect_all [of ex dir cb w] d by (metis fst_conv)
  have "w3 = w2\<lparr>cout := cout w3\<rparr>"
    using snd_detect_all [of ex dir cb w2] d by simp
  then have "w3 = w\<lparr>cout := cout w3\<rparr>"
    by (simp add: w2_def put_out_def)
  then obtain c where w3: "w3 = w\<lparr>cout := c\<rparr>" ..
  have o: "objpoints st = replicate (length (imgpoints st)) (build_objp cb)"
    using objpoints_detect_all [of ex dir cb w] st by simp
  have s: "imgpoints st \<noteq> [] \<Longrightarrow> imageSizeSet st"
    using imageSizeSet_detect_all [of ex dir cb w] st by simp
  have e: "(objpoints st = []) = (imgpoints st = [])"
    using o by (metis length_0_conv length_replicate)
  show ?thesis
  proof (cases "find_images ex dir = []")
    case True
    then show ?thesis
      by (simp add: calibrateCamera_def Let_def put_out_def put_err_def)
  next
    case False
    note ne = False
    show ?thesis
    proof (cases "imgpoints st = []")
      case True
      with ne e show ?thesis
        using d [unfolded w2_def]
        by (simp add: calibrateCamera_def Let_def st w3 put_out_def put_err_def)
    next
      case False
      with ne e s show ?thesis
        using d [unfolded w2_def]
        by (simp add: calibrateCamera_def Let_def st w3 solved_def put_out_def put_err_def)
    qed
  qed
qed

lemma total_error_loop_sum:
  "total_error_loop ex r ops ips i t = t + (\<Sum>k = i..<length ops. reproj_error ex r ops ips k)"
proof (induction ex r ops ips i t rule: total_error_loop.induct)
  case (1 ex r ops ips i t)
  show ?case
  proof (cases "i < length ops")
    case True
    with "1" show ?thesis
      by (simp add: total_error_loop.simps [of ex r ops ips i] sum.atLeast_Suc_lessThan add.assoc)
  next
    case False
    then show ?thesis by (simp add: total_error_loop.simps [of ex r ops ips i])
  qed
qed

lemma int_of_size_t_small: "n < 2 ^ 31 \<Longrightarrow> int_of_size_t n = int n"
  unfolding int_of_size_t_def
  by (simp add: signed_of_nat signed_take_bit_int_eq_self)

lemma sq_dist_nonneg: "0 \<le> sq_dist p q"
  by (cases p; cases q) simp

lemma l2_norm_diff_nonneg: "0 \<le> l2_norm_diff ps qs"
  unfolding l2_norm_diff_def
  by (intro real_sqrt_ge_zero sum_list_nonneg) (auto simp: sq_dist_nonneg)

lemma success_calibrateCamera:
  "success (fst (calibrateCamera ex dir cb w)) =
     (find_images ex dir \<noteq> [] \<and> imgpoints (fst (detect_all ex dir cb w)) \<noteq> [] \<and>
      rms (solved ex dir cb w) \<noteq> 0)"
  by (simp add: fst_calibrateCamera Let_def results_init_def)

lemma length_imgpoints_le:
  "length (imgpoints (fst (detect_all ex dir cb w))) \<le> length (find_images ex dir)"
  by (simp add: imgpoints_detect_all)

lemma reproj_error_cong:
  "rvecs r = rvecs r' \<Longrightarrow> tvecs r = tvecs r' \<Longrightarrow> cameraMatrix r = cameraMatrix r' \<Longrightarrow>
   distCoeffs r = distCoeffs r' \<Longrightarrow>
   reproj_error ex r ops ips i = reproj_error ex r' ops ips i"
  by (simp add: reproj_error_def)

lemma mean_calibrateCamera:
  assumes ok: "success (fst (calibrateCamera ex dir cb w))"
  shows "meanReprojectionError (fst (calibrateCamera ex dir cb w)) =
     (\<Sum>i = 0..<length (imgpoints (fst (detect_all ex dir cb w))).
        reproj_error ex (fst (calibrateCamera ex dir cb w))
          (objpoints (fst (detect_all ex dir cb w))) (imgpoints (fst (detect_all ex dir cb w))) i)
     / real (length (imgpoints (fst (detect_all ex dir cb w))))"
proof -
  let ?st = "fst (detect_all ex dir cb w)"
  let ?r = "fst (calibrateCamera ex dir cb w)"
  have o: "length (objpoints ?st) = length (imgpoints ?st)"
    by (subst objpoints_detect_all) simp
  from ok have c: "find_images ex dir \<noteq> []" "imgpoints ?st \<noteq> []" "rms (solved ex dir cb w) \<noteq> 0"
    by (simp_all add: success_calibrateCamera)
  define r2 where "r2 = (results_init cb)\<lparr>success := True,
      cameraMatrix := out_cameraMatrix (solved ex dir cb w),
      distCoeffs := out_distCoeffs (solved ex dir cb w),
      rvecs := out_rvecs (solved ex dir cb w), tvecs := out_tvecs (solved ex dir cb w),
      imageSize := imageSize_local ?st,
      numImagesUsed := int_of_size_t (length (objpoints ?st))\<rparr>"
  have r: "?r = r2\<lparr>meanReprojectionError :=
      total_error_loop ex r2 (objpoints ?st) (imgpoints ?st) 0 0 / real (length (objpoints ?st))\<rparr>"
    using c by (simp add: fst_calibrateCamera Let_def r2_def)
  have e: "reproj_error ex ?r (objpoints ?st) (imgpoints ?st) i =
           reproj_error ex r2 (objpoints ?st) (imgpoints ?st) i" for i
    by (rule reproj_error_cong) (simp_all add: r)
  have "meanReprojectionError ?r =
      total_error_loop ex r2 (objpoints ?st) (imgpoints ?st) 0 0 / real (length (objpoints ?st))"
    by (subst r) simp
  then show ?thesis
    by (simp add: total_error_loop_sum o e)
qed

section \<open>The concrete environment evaluated\<close>

lemma demo_find_images:
  "find_images (demo_extern content v c p) ''./images'' = map fst content"
  by (simp add: find_images_def patterns_def demo_extern_def)

lemma demo_detected:
  "detected (demo_extern demo_dir v c p) cb f = (f = ''./images/a.png'')"
  by (simp add: detected_def readable_def detection_def gray_of_def demo_extern_def demo_dir_def)

lemma demo_names:
  "map fst demo_dir = [''./images/a.png'', ''./images/b.png'', ''./images/c.png'']"
  by (simp add: demo_dir_def)

lemma demo_used: "filter (detected (demo_extern demo_dir v c p) cb) (map fst demo_dir) = [''./images/a.png'']"
  by (simp add: demo_names demo_detected)

lemma demo_imgpoints:
  "imgpoints (fst (detect_all (demo_extern demo_dir v c p) ''./images'' (Size 2 1) w)) = [[Point2f 0 0, Point2f 0 0]]"
  by (simp add: imgpoints_detect_all demo_find_images demo_used)
     (simp add: refined_def detection_def gray_of_def demo_extern_def demo_dir_def Size_def numeral_2_eq_2)

lemma demo_success:
  "success (fst (calibrateCamera (demo_extern demo_dir v c p) ''./images'' (Size 2 1) w)) = (v \<noteq> 0)"
  by (simp add: success_calibrateCamera demo_find_images demo_imgpoints demo_names)
     (simp add: solved_def Let_def demo_extern_def)

section \<open>Further facts about the loop, the concrete environments and main\<close>

text \<open>
  The properties of \<open>main\<close> below are stated for \<open>main_configured\<close>, the part of \<open>main\<close>
  after the arguments are parsed; \<open>main\<close> is that part whenever parsing does not return
  early.
\<close>

lemma main_after_parsing:
  "parse_args ex prog args config_default w = Inr cfg \<Longrightarrow>
   main ex prog args w =
     (Exit (fst (main_configured ex cfg w)), fst (snd (main_configured ex cfg w)))"
  by (simp add: main_def split: prod.splits)

lemma demo_build_objp_rows:
  "build_objp (Size 3 2) =
     [Point3f 0 0 0, Point3f 1 0 0, Point3f 2 0 0, Point3f 0 1 0, Point3f 1 1 0, Point3f 2 1 0]"
  by (simp add: build_objp_def Size_def objp_rows.simps objp_row.simps float_of_int_exact)

lemma demo_one_observation:
  "length (imgpoints (fst (detect_all (demo_extern demo_dir v c p) ''./images'' cb w))) = 1"
  by (simp add: imgpoints_detect_all demo_find_images demo_used)

lemma demo_build_objp: "build_objp (Size 2 1) = [Point3f 0 0 0, Point3f 1 0 0]"
  by (simp add: build_objp_def Size_def objp_rows.simps objp_row.simps float_of_int_exact)

lemma process_image_solver_irrelevant:
  "process_image (ex\<lparr>cv_calibrateCamera := s\<rparr>) cb objp n i f sw = process_image ex cb objp n i f sw"
  by (simp add: process_image_def Let_def split: prod.splits)

lemma detect_loop_solver_irrelevant:
  "detect_loop (ex\<lparr>cv_calibrateCamera := s\<rparr>) cb objp n i images sw =
   detect_loop ex cb objp n i images sw"
  by (induction images arbitrary: sw i) (simp_all add: process_image_solver_irrelevant)

lemma find_images_solver_irrelevant:
  "find_images (ex\<lparr>cv_calibrateCamera := s\<rparr>) dir = find_images ex dir"
  by (simp add: find_images_def)

lemma detect_all_solver_irrelevant:
  "detect_all (ex\<lparr>cv_calibrateCamera := s\<rparr>) dir cb w = detect_all ex dir cb w"
  by (simp add: detect_all_def find_images_solver_irrelevant detect_loop_solver_irrelevant)

lemma calibrateCamera_without_observations:
  assumes "imgpoints (fst (detect_all ex dir cb w)) = []"
  shows "calibrateCamera (ex\<lparr>cv_calibrateCamera := s\<rparr>) dir cb w = calibrateCamera ex dir cb w"
proof -
  define w2 where "w2 = put_out (FoundImages (length (find_images ex dir)))
        (put_out (CheckerboardSize (width cb) (height cb))
          (put_out (ImageDirectory dir) (put_out StartingCalibration w)))"
  obtain st w3 where d: "detect_all ex dir cb w2 = (st, w3)"
    by (cases "detect_all ex dir cb w2")
  have "fst (detect_all ex dir cb w) = st"
    using fst_detect_all [of ex dir cb w] d by (metis fst_conv)
  with assms have e: "imgpoints st = []" by simp
  show ?thesis
    using d [unfolded w2_def] e
    by (simp add: calibrateCamera_def Let_def find_images_solver_irrelevant
        detect_all_solver_irrelevant)
qed

lemma blank_names: "map fst blank_dir = [''./images/b.png'', ''./images/c.png'']"
  by (simp add: blank_dir_def)

lemma blank_detected: "\<not> detected (demo_extern blank_dir v c p) cb f"
  by (simp add: detected_def readable_def detection_def gray_of_def demo_extern_def blank_dir_def)

lemma blank_imgpoints:
  "imgpoints (fst (detect_all (demo_extern blank_dir v c p) ''./images'' cb w)) = []"
  by (simp add: imgpoints_detect_all blank_detected)

lemma mixed_names: "map fst mixed_dir = [''./images/a.png'', ''./images/b.png'']"
  by (simp add: mixed_dir_def)

lemma mixed_detected: "detected (demo_extern mixed_dir v c p) cb f = (f = ''./images/a.png'' \<or> f = ''./images/b.png'')"
  by (simp add: detected_def readable_def detection_def gray_of_def demo_extern_def mixed_dir_def)

lemma mixed_used:
  "used_images (demo_extern mixed_dir v c p) ''./images'' cb = [''./images/a.png'', ''./images/b.png'']"
  by (simp add: used_images_def demo_find_images mixed_names mixed_detected)

lemma mixed_readable:
  "filter (readable (demo_extern mixed_dir v c p)) (map fst mixed_dir) = [''./images/a.png'', ''./images/b.png'']"
  by (simp add: mixed_names) (simp add: readable_def demo_extern_def mixed_dir_def)

lemma imageSize_calibrateCamera:
  "success (fst (calibrateCamera ex dir cb w)) \<Longrightarrow>
   imageSize (fst (calibrateCamera ex dir cb w)) = imageSize_local (fst (detect_all ex dir cb w))"
  by (simp add: success_calibrateCamera) (simp add: fst_calibrateCamera Let_def)

lemma used_images_readable:
  "f \<in> set (used_images ex dir cb) \<Longrightarrow> f \<in> set (find_images ex dir) \<and> readable ex f"
  by (simp add: used_images_def detected_def)

lemma demo_readable:
  "readable (demo_extern demo_dir v c p) f = (f = ''./images/a.png'' \<or> f = ''./images/b.png'')"
  by (simp add: readable_def demo_extern_def demo_dir_def)

lemma demo_gray_size:
  "readable (demo_extern demo_dir v c p) f \<Longrightarrow> gray_size (demo_extern demo_dir v c p) f = Size 640 480"
  by (auto simp: demo_readable) (simp_all add: gray_size_def gray_of_def demo_extern_def demo_dir_def)

lemma main_configured_existing:
  assumes "imageDir cfg \<in> paths w"
  shows "main_configured ex cfg w =
     (let cb = Size (checkerboardWidth cfg) (checkerboardHeight cfg);
          r = fst (calibrateCamera ex (imageDir cfg) cb w);
          w1 = snd (calibrateCamera ex (imageDir cfg) cb w)
      in (if success r then 0 else 1,
          if success r
          then (if showDisplay cfg
                then showUndistortedImage ex r (imageDir cfg)
                       (saveCalibrationResultsToJSON ex r (outputFile cfg) w1)
                else saveCalibrationResultsToJSON ex r (outputFile cfg) w1)
          else w1,
          Some r))"
  using assms by (simp add: main_configured_def Let_def split: prod.splits)

lemma files_calibrateCamera: "files (snd (calibrateCamera ex dir cb w)) = files w"
  by (subst snd_calibrateCamera) simp

lemma files_save:
  "files (saveCalibrationResultsToJSON ex r file w) =
     (if ofstream_opens ex file then (files w)(file \<mapsto> artifact_of r) else files w)"
  by (simp add: saveCalibrationResultsToJSON_def put_err_def put_out_def)

lemma files_show: "files (showUndistortedImage ex r dir w) = files w"
  by (simp add: showUndistortedImage_def put_err_def put_out_def Let_def)

lemma cerr_show: "set (cerr w) \<subseteq> set (cerr (showUndistortedImage ex r dir w))"
  by (auto simp: showUndistortedImage_def put_err_def put_out_def Let_def)

lemma demo_success_any:
  "success (fst (calibrateCamera (demo_extern demo_dir v c p) ''./images'' cb w)) = (v \<noteq> 0)"
proof -
  let ?ex = "demo_extern demo_dir v c p"
  have "imgpoints (fst (detect_all ?ex ''./images'' cb w)) \<noteq> []"
    by (simp add: imgpoints_detect_all demo_find_images demo_used)
  moreover have "find_images ?ex ''./images'' \<noteq> []"
    by (simp add: demo_find_images demo_names)
  moreover have "rms (solved ?ex ''./images'' cb w) = v"
    by (simp add: solved_def Let_def demo_extern_def)
  ultimately show ?thesis
    by (simp add: success_calibrateCamera)
qed

text \<open>
  The program's part in the subpixel refinement is the call of line 160: for a file with
  a detection, the list appended to \<open>imgpoints\<close> is what \<open>cv::cornerSubPix\<close> returns for the
  detected corners with window argument \<open>Size(11, 11)\<close>, zero zone \<open>Size(-1, -1)\<close> and
  the criteria of at most 30 iterations or a change below 0.001.
\<close>

lemma refiner_call:
  "detected ex cb f \<Longrightarrow>
   imgpoints (fst (process_image ex cb objp n i f sw)) =
     imgpoints (fst sw) @
     [cv_cornerSubPix ex (gray_of ex f)
        (snd (cv_findChessboardCorners ex (gray_of ex f) cb detect_flags))
        (Size 11 11) (Size (- 1) (- 1))
        \<lparr>crit_type = {EPS, MAX_ITER}, maxCount = 30, epsilon = 0.001\<rparr>]"
  by (simp add: fst_process_image detected_def refined_def detection_def criteria_def Let_def)

section \<open>The iterations of the refiner\<close>










section \<open>Poses, observations and the count of images used\<close>

text \<open>
  C1.  In every run in which the calibration succeeds, the number of rotation vectors,
  the number of translation vectors, the number of accumulated observations (image-point
  lists, and the object-point lists paired with them) and the field \<open>numImagesUsed\<close> are
  equal.  The vectors are outputs of \<open>cv::calibrateCamera\<close>, which returns one of each per
  view; the count is stored in an \<open>int\<close>, which holds it for fewer than \<open>2^31\<close>
  observations.
\<close>

theorem poses_observations_count_agree:
  assumes solver: "\<forall>ops ips sz.
             length (out_rvecs (cv_calibrateCamera ex ops ips sz)) = length ops \<and>
             length (out_tvecs (cv_calibrateCamera ex ops ips sz)) = length ops"
    and ok: "success (fst (calibrateCamera ex dir cb w))"
    and small: "length (imgpoints (fst (detect_all ex dir cb w))) < 2 ^ 31"
  shows "length (rvecs (fst (calibrateCamera ex dir cb w))) =
           length (imgpoints (fst (detect_all ex dir cb w))) \<and>
         length (tvecs (fst (calibrateCamera ex dir cb w))) =
           length (imgpoints (fst (detect_all ex dir cb w))) \<and>
         length (objpoints (fst (detect_all ex dir cb w))) =
           length (imgpoints (fst (detect_all ex dir cb w))) \<and>
         numImagesUsed (fst (calibrateCamera ex dir cb w)) =
           int (length (imgpoints (fst (detect_all ex dir cb w))))"
proof -
  let ?st = "fst (detect_all ex dir cb w)"
  have o: "length (objpoints ?st) = length (imgpoints ?st)"
    by (subst objpoints_detect_all) simp
  from small have n: "int_of_size_t (length (objpoints ?st)) = int (length (imgpoints ?st))"
    by (simp add: o int_of_size_t_small)
  from ok have c: "find_images ex dir \<noteq> []" "imgpoints ?st \<noteq> []" "rms (solved ex dir cb w) \<noteq> 0"
    by (simp_all add: success_calibrateCamera)
  have r: "length (rvecs (fst (calibrateCamera ex dir cb w))) = length (objpoints ?st)"
    using c solver by (simp add: fst_calibrateCamera Let_def solved_def)
  have t: "length (tvecs (fst (calibrateCamera ex dir cb w))) = length (objpoints ?st)"
    using c solver by (simp add: fst_calibrateCamera Let_def solved_def)
  have m: "numImagesUsed (fst (calibrateCamera ex dir cb w)) = int_of_size_t (length (objpoints ?st))"
    using c by (simp add: fst_calibrateCamera Let_def)
  show ?thesis using o n r t m by simp
qed

theorem poses_observations_count_agree_witness:
  "success (fst (calibrateCamera (demo_extern demo_dir 1 True True) ''./images'' (Size 2 1) world0)) \<and>
   length (imgpoints (fst (detect_all (demo_extern demo_dir 1 True True) ''./images'' (Size 2 1) world0)))
     < 2 ^ 31 \<and>
   length (rvecs (fst (calibrateCamera (demo_extern demo_dir 1 True True) ''./images'' (Size 2 1) world0))) = 1 \<and>
   length (tvecs (fst (calibrateCamera (demo_extern demo_dir 1 True True) ''./images'' (Size 2 1) world0))) = 1 \<and>
   numImagesUsed (fst (calibrateCamera (demo_extern demo_dir 1 True True) ''./images'' (Size 2 1) world0)) = 1"
proof -
  have s: "\<forall>ops ips sz.
      length (out_rvecs (cv_calibrateCamera (demo_extern demo_dir 1 True True) ops ips sz)) = length ops \<and>
      length (out_tvecs (cv_calibrateCamera (demo_extern demo_dir 1 True True) ops ips sz)) = length ops"
    by (simp add: demo_extern_def)
  have ok: "success (fst (calibrateCamera (demo_extern demo_dir 1 True True) ''./images'' (Size 2 1) world0))"
    by (simp add: demo_success)
  have small: "length (imgpoints (fst (detect_all (demo_extern demo_dir 1 True True) ''./images''
      (Size 2 1) world0))) < 2 ^ 31"
    by (simp add: demo_imgpoints)
  show ?thesis
    using poses_observations_count_agree [OF s ok small] ok small by (simp add: demo_imgpoints)
qed

section \<open>The reprojection error\<close>

text \<open>
  C2.  After a successful calibration there is at least one observation; the error of
  observation \<open>i\<close> is the L2 norm of the difference between the observed and the
  reprojected points divided by the number of points (\<open>width \<times> height\<close>, the length of
  what \<open>cv::projectPoints\<close> returns for the template); the reported mean is the sum of
  these errors divided by their number; and both are not negative.  \<open>cv::norm\<close> is taken
  to return the L2 norm, \<open>cv::projectPoints\<close> one point per object point.
\<close>

theorem reprojection_error_is_mean:
  assumes norm: "\<forall>ps qs. cv_norm_L2 ex ps qs = l2_norm_diff ps qs"
    and proj: "\<forall>ops rv tv K D. length (cv_projectPoints ex ops rv tv K D) = length ops"
    and dims: "0 < width cb" "0 < height cb"
    and ok: "success (fst (calibrateCamera ex dir cb w))"
  shows "1 \<le> length (imgpoints (fst (detect_all ex dir cb w))) \<and>
    (\<forall>i < length (imgpoints (fst (detect_all ex dir cb w))).
       reproj_error ex (fst (calibrateCamera ex dir cb w))
         (objpoints (fst (detect_all ex dir cb w))) (imgpoints (fst (detect_all ex dir cb w))) i =
       l2_norm_diff (imgpoints (fst (detect_all ex dir cb w)) ! i)
         (cv_projectPoints ex (build_objp cb)
            (rvecs (fst (calibrateCamera ex dir cb w)) ! i)
            (tvecs (fst (calibrateCamera ex dir cb w)) ! i)
            (cameraMatrix (fst (calibrateCamera ex dir cb w)))
            (distCoeffs (fst (calibrateCamera ex dir cb w))))
         / real (nat (width cb * height cb)) \<and>
       0 \<le> reproj_error ex (fst (calibrateCamera ex dir cb w))
         (objpoints (fst (detect_all ex dir cb w))) (imgpoints (fst (detect_all ex dir cb w))) i) \<and>
    meanReprojectionError (fst (calibrateCamera ex dir cb w)) =
      (\<Sum>i = 0..<length (imgpoints (fst (detect_all ex dir cb w))).
         reproj_error ex (fst (calibrateCamera ex dir cb w))
           (objpoints (fst (detect_all ex dir cb w))) (imgpoints (fst (detect_all ex dir cb w))) i)
      / real (length (imgpoints (fst (detect_all ex dir cb w)))) \<and>
    0 \<le> meanReprojectionError (fst (calibrateCamera ex dir cb w))"
proof -
  let ?st = "fst (detect_all ex dir cb w)"
  let ?r = "fst (calibrateCamera ex dir cb w)"
  let ?e = "reproj_error ex ?r (objpoints ?st) (imgpoints ?st)"
  from ok have c: "imgpoints ?st \<noteq> []"
    by (simp add: success_calibrateCamera)
  then have n: "1 \<le> length (imgpoints ?st)"
    by (cases "imgpoints ?st") simp_all
  have len: "length (build_objp cb) = nat (width cb * height cb)"
    using dims by (simp add: length_build_objp nat_mult_distrib mult.commute)
  have ith: "objpoints ?st ! i = build_objp cb" if "i < length (imgpoints ?st)" for i
    using that by (subst objpoints_detect_all) simp
  have per: "?e i = l2_norm_diff (imgpoints ?st ! i)
         (cv_projectPoints ex (build_objp cb) (rvecs ?r ! i) (tvecs ?r ! i)
            (cameraMatrix ?r) (distCoeffs ?r)) / real (nat (width cb * height cb))"
    if "i < length (imgpoints ?st)" for i
    using that norm proj by (simp add: reproj_error_def Let_def ith len)
  have nonneg: "0 \<le> ?e i" if "i < length (imgpoints ?st)" for i
    using per [OF that] l2_norm_diff_nonneg by simp
  have mean: "meanReprojectionError ?r = (\<Sum>i = 0..<length (imgpoints ?st). ?e i) / real (length (imgpoints ?st))"
    using ok by (rule mean_calibrateCamera)
  have "0 \<le> (\<Sum>i = 0..<length (imgpoints ?st). ?e i)"
    by (rule sum_nonneg) (simp add: nonneg)
  then have "0 \<le> meanReprojectionError ?r"
    by (simp add: mean)
  with n per nonneg mean show ?thesis by blast
qed

theorem reprojection_error_is_mean_witness:
  "0 < width (Size 2 1) \<and> 0 < height (Size 2 1) \<and>
   success (fst (calibrateCamera (demo_extern demo_dir 1 True True) ''./images'' (Size 2 1) world0)) \<and>
   1 \<le> length (imgpoints (fst (detect_all (demo_extern demo_dir 1 True True) ''./images'' (Size 2 1) world0))) \<and>
   reproj_error (demo_extern demo_dir 1 True True)
     (fst (calibrateCamera (demo_extern demo_dir 1 True True) ''./images'' (Size 2 1) world0))
     (objpoints (fst (detect_all (demo_extern demo_dir 1 True True) ''./images'' (Size 2 1) world0)))
     (imgpoints (fst (detect_all (demo_extern demo_dir 1 True True) ''./images'' (Size 2 1) world0))) 0 = 1 / 2 \<and>
   meanReprojectionError
     (fst (calibrateCamera (demo_extern demo_dir 1 True True) ''./images'' (Size 2 1) world0)) = 1 / 2"
proof -
  let ?ex = "demo_extern demo_dir 1 True True"
  let ?r = "fst (calibrateCamera ?ex ''./images'' (Size 2 1) world0)"
  let ?st = "fst (detect_all ?ex ''./images'' (Size 2 1) world0)"
  have n: "\<forall>ps qs. cv_norm_L2 ?ex ps qs = l2_norm_diff ps qs"
    by (simp add: demo_extern_def)
  have p: "\<forall>ops rv tv K D. length (cv_projectPoints ?ex ops rv tv K D) = length ops"
    by (simp add: demo_extern_def)
  have d: "0 < width (Size 2 1)" "0 < height (Size 2 1)"
    by (simp_all add: Size_def)
  have ok: "success ?r"
    by (simp add: demo_success)
  note t = reprojection_error_is_mean [OF n p d ok]
  have len: "length (imgpoints ?st) = 1"
    by (simp add: demo_imgpoints)
  from t len have "reproj_error ?ex ?r (objpoints ?st) (imgpoints ?st) 0 =
      l2_norm_diff (imgpoints ?st ! 0)
        (cv_projectPoints ?ex (build_objp (Size 2 1)) (rvecs ?r ! 0) (tvecs ?r ! 0)
           (cameraMatrix ?r) (distCoeffs ?r)) / real (nat (width (Size 2 1) * height (Size 2 1)))"
    by simp
  also have "\<dots> = 1 / 2"
    by (simp add: demo_imgpoints demo_build_objp)
       (simp add: demo_extern_def l2_norm_diff_def Size_def)
  finally have e: "reproj_error ?ex ?r (objpoints ?st) (imgpoints ?st) 0 = 1 / 2" .
  from t have "meanReprojectionError ?r =
      (\<Sum>i = 0..<length (imgpoints ?st). reproj_error ?ex ?r (objpoints ?st) (imgpoints ?st) i)
      / real (length (imgpoints ?st))"
    by blast
  then have m: "meanReprojectionError ?r = 1 / 2"
    by (simp add: len e)
  from d ok len e m show ?thesis by simp
qed

section \<open>The object-point template\<close>

text \<open>
  C3, as the program has it.  For grid dimensions \<open>width\<close> and \<open>height\<close> (counts, so not
  negative) the template has exactly \<open>width \<times> height\<close> points, all with \<open>z = 0\<close>, in
  row-major order: the point at position \<open>i \<times> width + j\<close> is \<open>(j, i, 0)\<close> with both
  coordinates converted to \<open>float\<close>.  That is the point \<open>(j, i, 0)\<close> itself, the spacing
  being one, when neither dimension exceeds \<open>2^24 + 1\<close>.  The object points accumulated,
  and handed to the solver, are one unchanged copy of the template per observation.
\<close>

theorem object_template:
  assumes "0 \<le> width cb" and "0 \<le> height cb"
  shows "length (build_objp cb) = nat (width cb * height cb) \<and>
         (\<forall>p \<in> set (build_objp cb). z3 p = 0) \<and>
         (\<forall>i j. 0 \<le> i \<and> i < height cb \<and> 0 \<le> j \<and> j < width cb \<longrightarrow>
            build_objp cb ! nat (i * width cb + j) =
              Point3f (float_of_int j) (float_of_int i) 0) \<and>
         (width cb \<le> 2 ^ 24 + 1 \<and> height cb \<le> 2 ^ 24 + 1 \<longrightarrow>
            (\<forall>i j. 0 \<le> i \<and> i < height cb \<and> 0 \<le> j \<and> j < width cb \<longrightarrow>
               build_objp cb ! nat (i * width cb + j) = Point3f (of_int j) (of_int i) 0)) \<and>
         objpoints (fst (detect_all ex dir cb w)) =
           replicate (length (imgpoints (fst (detect_all ex dir cb w)))) (build_objp cb) \<and>
         solver_calls (snd (calibrateCamera ex dir cb w)) =
           solver_calls w @
           (if find_images ex dir = [] \<or> imgpoints (fst (detect_all ex dir cb w)) = [] then []
            else [(replicate (length (imgpoints (fst (detect_all ex dir cb w)))) (build_objp cb),
                   imgpoints (fst (detect_all ex dir cb w)),
                   imageSize_local (fst (detect_all ex dir cb w)))])"
proof -
  have a: "length (build_objp cb) = nat (width cb * height cb)"
    using assms by (simp add: length_build_objp nat_mult_distrib mult.commute)
  have b: "\<forall>p \<in> set (build_objp cb). z3 p = 0"
    by (simp add: z_build_objp)
  have c: "\<forall>i j. 0 \<le> i \<and> i < height cb \<and> 0 \<le> j \<and> j < width cb \<longrightarrow>
            build_objp cb ! nat (i * width cb + j) =
              Point3f (float_of_int j) (float_of_int i) 0"
    by (simp add: nth_build_objp)
  have x: "width cb \<le> 2 ^ 24 + 1 \<and> height cb \<le> 2 ^ 24 + 1 \<longrightarrow>
            (\<forall>i j. 0 \<le> i \<and> i < height cb \<and> 0 \<le> j \<and> j < width cb \<longrightarrow>
               build_objp cb ! nat (i * width cb + j) = Point3f (of_int j) (of_int i) 0)"
    using nth_build_objp_exact [of _ cb] by blast
  have d: "objpoints (fst (detect_all ex dir cb w)) =
           replicate (length (imgpoints (fst (detect_all ex dir cb w)))) (build_objp cb)"
    by (rule objpoints_detect_all)
  have e: "solver_calls (snd (calibrateCamera ex dir cb w)) =
           solver_calls w @
           (if find_images ex dir = [] \<or> imgpoints (fst (detect_all ex dir cb w)) = [] then []
            else [(replicate (length (imgpoints (fst (detect_all ex dir cb w)))) (build_objp cb),
                   imgpoints (fst (detect_all ex dir cb w)),
                   imageSize_local (fst (detect_all ex dir cb w)))])"
    by (subst snd_calibrateCamera) (simp add: Let_def d [symmetric])
  from a b c x d e show ?thesis by blast
qed

theorem object_template_witness:
  "0 \<le> width (Size 3 2) \<and> 0 \<le> height (Size 3 2) \<and>
   width (Size 3 2) \<le> 2 ^ 24 + 1 \<and> height (Size 3 2) \<le> 2 ^ 24 + 1 \<and>
   length (build_objp (Size 3 2)) = 6 \<and>
   z3 (Point3f 2 1 0) = 0 \<and>
   build_objp (Size 3 2) ! 5 = Point3f (float_of_int 2) (float_of_int 1) 0 \<and>
   build_objp (Size 3 2) ! 5 = Point3f 2 1 0 \<and>
   build_objp (Size 3 2) ! 3 = Point3f 0 1 0 \<and>
   objpoints (fst (detect_all (demo_extern demo_dir 1 True True) ''./images'' (Size 3 2) world0)) =
     [[Point3f 0 0 0, Point3f 1 0 0, Point3f 2 0 0, Point3f 0 1 0, Point3f 1 1 0, Point3f 2 1 0]]"
proof -
  have h: "0 \<le> width (Size 3 2)" "0 \<le> height (Size 3 2)"
    by (simp_all add: Size_def)
  have s: "width (Size 3 2) \<le> 2 ^ 24 + 1" "height (Size 3 2) \<le> 2 ^ 24 + 1"
    by (simp_all add: Size_def)
  note t = object_template [OF h, of "demo_extern demo_dir 1 True True" "''./images''" world0]
  from t have "length (build_objp (Size 3 2)) = nat (width (Size 3 2) * height (Size 3 2))"
    by blast
  then have a: "length (build_objp (Size 3 2)) = 6"
    by (simp add: Size_def)
  from t have z: "\<forall>p \<in> set (build_objp (Size 3 2)). z3 p = 0" by blast
  have "Point3f 2 1 0 \<in> set (build_objp (Size 3 2))" by (simp add: demo_build_objp_rows)
  with z have b: "z3 (Point3f 2 1 0) = 0" by blast
  from t have "0 \<le> (1::int) \<and> 1 < height (Size 3 2) \<and> 0 \<le> (2::int) \<and> 2 < width (Size 3 2) \<longrightarrow>
      build_objp (Size 3 2) ! nat (1 * width (Size 3 2) + 2) =
        Point3f (float_of_int 2) (float_of_int 1) 0"
    by blast
  then have c: "build_objp (Size 3 2) ! 5 = Point3f (float_of_int 2) (float_of_int 1) 0"
    by (simp add: Size_def)
  from t s have e: "\<forall>i j. 0 \<le> i \<and> i < height (Size 3 2) \<and> 0 \<le> j \<and> j < width (Size 3 2) \<longrightarrow>
      build_objp (Size 3 2) ! nat (i * width (Size 3 2) + j) = Point3f (of_int j) (of_int i) 0"
    by blast
  from e have "0 \<le> (1::int) \<and> 1 < height (Size 3 2) \<and> 0 \<le> (2::int) \<and> 2 < width (Size 3 2) \<longrightarrow>
      build_objp (Size 3 2) ! nat (1 * width (Size 3 2) + 2) = Point3f (of_int 2) (of_int 1) 0"
    by blast
  then have c2: "build_objp (Size 3 2) ! 5 = Point3f 2 1 0"
    by (simp add: Size_def)
  from e have "0 \<le> (1::int) \<and> 1 < height (Size 3 2) \<and> 0 \<le> (0::int) \<and> 0 < width (Size 3 2) \<longrightarrow>
      build_objp (Size 3 2) ! nat (1 * width (Size 3 2) + 0) = Point3f (of_int 0) (of_int 1) 0"
    by blast
  then have c3: "build_objp (Size 3 2) ! 3 = Point3f 0 1 0"
    by (simp add: Size_def)
  from t have "objpoints (fst (detect_all (demo_extern demo_dir 1 True True) ''./images'' (Size 3 2) world0)) =
      replicate (length (imgpoints (fst (detect_all (demo_extern demo_dir 1 True True) ''./images'' (Size 3 2) world0))))
        (build_objp (Size 3 2))"
    by blast
  then have d: "objpoints (fst (detect_all (demo_extern demo_dir 1 True True) ''./images'' (Size 3 2) world0)) =
      [[Point3f 0 0 0, Point3f 1 0 0, Point3f 2 0 0, Point3f 0 1 0, Point3f 1 1 0, Point3f 2 1 0]]"
    by (simp add: demo_one_observation demo_build_objp_rows)
  from h s a b c c2 c3 d show ?thesis by blast
qed

text \<open>
  Beyond \<open>2^24\<close> a coordinate is not kept: in a grid of 16777218 columns and one row the
  point for column 16777217 has \<open>x = 16777216\<close>, the same as its neighbour to the left.
\<close>

theorem wide_template_counterexample:
  "0 \<le> width (Size 16777218 1) \<and> 0 \<le> height (Size 16777218 1) \<and>
   build_objp (Size 16777218 1) ! 16777217 = Point3f 16777216 0 0 \<and>
   build_objp (Size 16777218 1) ! 16777216 = Point3f 16777216 0 0 \<and>
   Point3f 16777216 0 0 \<noteq> Point3f 16777217 0 0"
proof -
  have h: "0 \<le> width (Size 16777218 1)" "0 \<le> height (Size 16777218 1)"
    by (simp_all add: Size_def)
  have "build_objp (Size 16777218 1) ! nat (0 * width (Size 16777218 1) + 16777217) =
      Point3f (float_of_int 16777217) (float_of_int 0) 0"
    by (rule nth_build_objp) (simp_all add: Size_def)
  then have a: "build_objp (Size 16777218 1) ! 16777217 = Point3f 16777216 0 0"
    by (simp add: Size_def float_of_int_tie float_of_int_exact)
  have "build_objp (Size 16777218 1) ! nat (0 * width (Size 16777218 1) + 16777216) =
      Point3f (float_of_int 16777216) (float_of_int 0) 0"
    by (rule nth_build_objp) (simp_all add: Size_def)
  then have b: "build_objp (Size 16777218 1) ! 16777216 = Point3f 16777216 0 0"
    by (simp add: Size_def float_of_int_exact)
  from h a b show ?thesis by simp
qed

section \<open>The image dimensions\<close>

text \<open>
  C4, as the program has it.  After a successful calibration \<open>imageSize\<close> is the size of
  the first file that could be read, in enumeration order, whether or not a checkerboard
  was found in it.  The program never compares the sizes of two images: when all
  readable files have one size, every observation comes from an image of that size and
  \<open>imageSize\<close> equals it.
\<close>

theorem image_size_is_first_readable:
  assumes ok: "success (fst (calibrateCamera ex dir cb w))"
  shows "filter (readable ex) (find_images ex dir) \<noteq> [] \<and>
         imageSize (fst (calibrateCamera ex dir cb w)) =
           gray_size ex (hd (filter (readable ex) (find_images ex dir))) \<and>
         ((\<forall>f \<in> set (find_images ex dir). readable ex f \<longrightarrow> gray_size ex f = d) \<longrightarrow>
            (\<forall>f \<in> set (used_images ex dir cb). gray_size ex f = d) \<and>
            imageSize (fst (calibrateCamera ex dir cb w)) = d)"
proof -
  from ok have "imgpoints (fst (detect_all ex dir cb w)) \<noteq> []"
    by (simp add: success_calibrateCamera)
  then obtain f where f: "f \<in> set (used_images ex dir cb)"
    by (auto simp: imgpoints_detect_all used_images_def filter_empty_conv)
  then have ne: "filter (readable ex) (find_images ex dir) \<noteq> []"
    using used_images_readable [of f ex dir cb] by (auto simp: filter_empty_conv)
  then obtain g rest where g: "filter (readable ex) (find_images ex dir) = g # rest"
    by (cases "filter (readable ex) (find_images ex dir)") auto
  have s: "imageSize (fst (calibrateCamera ex dir cb w)) =
           gray_size ex (hd (filter (readable ex) (find_images ex dir)))"
    by (simp add: imageSize_calibrateCamera [OF ok] imageSize_detect_all g)
  have "g \<in> set (filter (readable ex) (find_images ex dir))"
    by (simp add: g)
  then have gr: "g \<in> set (find_images ex dir)" "readable ex g"
    by simp_all
  have u: "(\<forall>f \<in> set (find_images ex dir). readable ex f \<longrightarrow> gray_size ex f = d) \<longrightarrow>
            (\<forall>f \<in> set (used_images ex dir cb). gray_size ex f = d) \<and>
            imageSize (fst (calibrateCamera ex dir cb w)) = d"
    using gr s g used_images_readable [of _ ex dir cb] by auto
  from ne s u show ?thesis by blast
qed

theorem image_size_is_first_readable_witness:
  "success (fst (calibrateCamera (demo_extern demo_dir 1 True True) ''./images'' (Size 2 1) world0)) \<and>
   hd (filter (readable (demo_extern demo_dir 1 True True)) (find_images (demo_extern demo_dir 1 True True) ''./images'')) =
     ''./images/a.png'' \<and>
   gray_size (demo_extern demo_dir 1 True True) ''./images/a.png'' = Size 640 480 \<and>
   gray_size (demo_extern demo_dir 1 True True) ''./images/b.png'' = Size 640 480 \<and>
   imageSize (fst (calibrateCamera (demo_extern demo_dir 1 True True) ''./images'' (Size 2 1) world0)) =
     Size 640 480"
proof -
  let ?ex = "demo_extern demo_dir 1 True True"
  have ok: "success (fst (calibrateCamera ?ex ''./images'' (Size 2 1) world0))"
    by (simp add: demo_success)
  note t = image_size_is_first_readable [OF ok, of "Size 640 480"]
  have all: "\<forall>f \<in> set (find_images ?ex ''./images''). readable ?ex f \<longrightarrow> gray_size ?ex f = Size 640 480"
    by (simp add: demo_gray_size)
  from t all have s: "imageSize (fst (calibrateCamera ?ex ''./images'' (Size 2 1) world0)) = Size 640 480"
    by blast
  have h: "hd (filter (readable ?ex) (find_images ?ex ''./images'')) = ''./images/a.png''"
    by (simp add: demo_find_images demo_names demo_readable)
  have a: "gray_size ?ex ''./images/a.png'' = Size 640 480"
    by (rule demo_gray_size) (simp add: demo_readable)
  have b: "gray_size ?ex ''./images/b.png'' = Size 640 480"
    by (rule demo_gray_size) (simp add: demo_readable)
  from ok h a b s show ?thesis by blast
qed

text \<open>
  Without that condition the observations need not share their dimensions: two pictures
  of different sizes, a checkerboard found in both, give a successful run with two
  observations, and \<open>imageSize\<close> is the size of the first.
\<close>

theorem mixed_sizes_counterexample:
  "success (fst (calibrateCamera (demo_extern mixed_dir 1 True True) ''./images'' (Size 2 1) world0)) \<and>
   used_images (demo_extern mixed_dir 1 True True) ''./images'' (Size 2 1) =
     [''./images/a.png'', ''./images/b.png''] \<and>
   length (imgpoints (fst (detect_all (demo_extern mixed_dir 1 True True) ''./images'' (Size 2 1) world0))) = 2 \<and>
   gray_size (demo_extern mixed_dir 1 True True) ''./images/a.png'' = Size 640 480 \<and>
   gray_size (demo_extern mixed_dir 1 True True) ''./images/b.png'' = Size 800 600 \<and>
   Size 640 480 \<noteq> Size 800 600 \<and>
   imageSize (fst (calibrateCamera (demo_extern mixed_dir 1 True True) ''./images'' (Size 2 1) world0)) =
     Size 640 480"
proof -
  let ?ex = "demo_extern mixed_dir 1 True True"
  have u: "used_images ?ex ''./images'' (Size 2 1) = [''./images/a.png'', ''./images/b.png'']"
    by (rule mixed_used)
  have n: "length (imgpoints (fst (detect_all ?ex ''./images'' (Size 2 1) world0))) = 2"
    using u by (simp add: imgpoints_detect_all used_images_def)
  have ok: "success (fst (calibrateCamera ?ex ''./images'' (Size 2 1) world0))"
    using n by (simp add: success_calibrateCamera demo_find_images mixed_names)
       (auto simp: solved_def Let_def demo_extern_def)
  have a: "gray_size ?ex ''./images/a.png'' = Size 640 480"
    by (simp add: gray_size_def gray_of_def demo_extern_def mixed_dir_def)
  have b: "gray_size ?ex ''./images/b.png'' = Size 800 600"
    by (simp add: gray_size_def gray_of_def demo_extern_def mixed_dir_def)
  have d: "Size 640 480 \<noteq> Size 800 600"
    by (simp add: Size_def)
  have s: "imageSize (fst (calibrateCamera ?ex ''./images'' (Size 2 1) world0)) = Size 640 480"
    by (simp add: imageSize_calibrateCamera [OF ok] imageSize_detect_all demo_find_images
        mixed_readable a)
  from ok u n a b d s show ?thesis by blast
qed

section \<open>Exit code and artifact\<close>

text \<open>
  C5, as the program has it.  When the image directory exists, \<open>main\<close> runs the
  calibration.  If no image is found, no checkerboard is detected or the solver's value
  is zero, the calibration has failed; every failed run exits with code 1 and leaves
  the files as they were.  Every successful run exits with code 0, and the artifact is
  written to the output path when the output stream opens; when it does not, the files
  stay as they were.
\<close>

theorem exit_code_and_artifact:
  assumes "imageDir cfg \<in> paths w"
  shows "snd (snd (main_configured ex cfg w)) =
           Some (fst (calibrateCamera ex (imageDir cfg)
             (Size (checkerboardWidth cfg) (checkerboardHeight cfg)) w)) \<and>
         (find_images ex (imageDir cfg) = [] \<or>
          imgpoints (fst (detect_all ex (imageDir cfg)
             (Size (checkerboardWidth cfg) (checkerboardHeight cfg)) w)) = [] \<or>
          rms (solved ex (imageDir cfg)
             (Size (checkerboardWidth cfg) (checkerboardHeight cfg)) w) = 0 \<longrightarrow>
            fst (main_configured ex cfg w) = 1 \<and>
            files (fst (snd (main_configured ex cfg w))) = files w) \<and>
         (\<not> success (fst (calibrateCamera ex (imageDir cfg)
             (Size (checkerboardWidth cfg) (checkerboardHeight cfg)) w)) \<longrightarrow>
            fst (main_configured ex cfg w) = 1 \<and>
            files (fst (snd (main_configured ex cfg w))) = files w) \<and>
         (success (fst (calibrateCamera ex (imageDir cfg)
             (Size (checkerboardWidth cfg) (checkerboardHeight cfg)) w)) \<longrightarrow>
            fst (main_configured ex cfg w) = 0 \<and>
            files (fst (snd (main_configured ex cfg w))) =
              (if ofstream_opens ex (outputFile cfg)
               then (files w)(outputFile cfg \<mapsto>
                      artifact_of (fst (calibrateCamera ex (imageDir cfg)
                        (Size (checkerboardWidth cfg) (checkerboardHeight cfg)) w)))
               else files w))"
proof -
  let ?cb = "Size (checkerboardWidth cfg) (checkerboardHeight cfg)"
  let ?r = "fst (calibrateCamera ex (imageDir cfg) ?cb w)"
  note m = main_configured_existing [OF assms, of ex]
  have a: "snd (snd (main_configured ex cfg w)) = Some ?r"
    by (simp add: m Let_def)
  have c: "\<not> success ?r \<longrightarrow>
            fst (main_configured ex cfg w) = 1 \<and> files (fst (snd (main_configured ex cfg w))) = files w"
    by (simp add: m Let_def files_calibrateCamera)
  have b: "find_images ex (imageDir cfg) = [] \<or>
          imgpoints (fst (detect_all ex (imageDir cfg) ?cb w)) = [] \<or>
          rms (solved ex (imageDir cfg) ?cb w) = 0 \<longrightarrow>
            fst (main_configured ex cfg w) = 1 \<and> files (fst (snd (main_configured ex cfg w))) = files w"
    using c by (auto simp: success_calibrateCamera)
  have d: "success ?r \<longrightarrow>
            fst (main_configured ex cfg w) = 0 \<and>
            files (fst (snd (main_configured ex cfg w))) =
              (if ofstream_opens ex (outputFile cfg)
               then (files w)(outputFile cfg \<mapsto> artifact_of ?r) else files w)"
    by (simp add: m Let_def files_show files_save files_calibrateCamera)
  from a b c d show ?thesis by blast
qed

theorem exit_code_and_artifact_witness:
  "imageDir config_default \<in> paths world0 \<and>
   success (fst (calibrateCamera (demo_extern demo_dir 1 True True) (imageDir config_default)
      (Size (checkerboardWidth config_default) (checkerboardHeight config_default)) world0)) \<and>
   fst (main_configured (demo_extern demo_dir 1 True True) config_default world0) = 0 \<and>
   files (fst (snd (main_configured (demo_extern demo_dir 1 True True) config_default world0)))
     (outputFile config_default) \<noteq> None \<and>
   \<not> success (fst (calibrateCamera (demo_extern demo_dir 0 True True) (imageDir config_default)
      (Size (checkerboardWidth config_default) (checkerboardHeight config_default)) world0)) \<and>
   fst (main_configured (demo_extern demo_dir 0 True True) config_default world0) = 1 \<and>
   files (fst (snd (main_configured (demo_extern demo_dir 0 True True) config_default world0))) =
     files world0"
proof -
  have d: "imageDir config_default = ''./images''"
    by (simp add: config_default_def)
  have p: "imageDir config_default \<in> paths world0"
    by (simp add: config_default_def world0_def)
  have ok: "success (fst (calibrateCamera (demo_extern demo_dir 1 True True) (imageDir config_default)
      (Size (checkerboardWidth config_default) (checkerboardHeight config_default)) world0))"
    by (simp add: d demo_success_any)
  have o: "ofstream_opens (demo_extern demo_dir 1 True True) (outputFile config_default)"
    by (simp add: demo_extern_def)
  have ko: "\<not> success (fst (calibrateCamera (demo_extern demo_dir 0 True True) (imageDir config_default)
      (Size (checkerboardWidth config_default) (checkerboardHeight config_default)) world0))"
    by (simp add: d demo_success_any)
  from exit_code_and_artifact [OF p, of "demo_extern demo_dir 1 True True"] ok o
  have a: "fst (main_configured (demo_extern demo_dir 1 True True) config_default world0) = 0"
    and b: "files (fst (snd (main_configured (demo_extern demo_dir 1 True True) config_default world0)))
      (outputFile config_default) \<noteq> None"
    by simp_all
  from exit_code_and_artifact [OF p, of "demo_extern demo_dir 0 True True"] ko
  have c: "fst (main_configured (demo_extern demo_dir 0 True True) config_default world0) = 1"
    and e: "files (fst (snd (main_configured (demo_extern demo_dir 0 True True) config_default world0))) =
      files world0"
    by simp_all
  from p ok a b ko c e show ?thesis by blast
qed

text \<open>
  A successful run whose output file cannot be opened: exit code 0 and no artifact.
\<close>

theorem unwritable_output_counterexample:
  "success (fst (calibrateCamera (demo_extern demo_dir 1 True False) (imageDir config_default)
      (Size (checkerboardWidth config_default) (checkerboardHeight config_default)) world0)) \<and>
   fst (main_configured (demo_extern demo_dir 1 True False) config_default world0) = 0 \<and>
   files (fst (snd (main_configured (demo_extern demo_dir 1 True False) config_default world0)))
     (outputFile config_default) = None"
proof -
  let ?ex = "demo_extern demo_dir 1 True False"
  have d: "imageDir config_default = ''./images''"
    by (simp add: config_default_def)
  have p: "imageDir config_default \<in> paths world0"
    by (simp add: config_default_def world0_def)
  have ok: "success (fst (calibrateCamera ?ex (imageDir config_default)
      (Size (checkerboardWidth config_default) (checkerboardHeight config_default)) world0))"
    by (simp add: d demo_success_any)
  have o: "\<not> ofstream_opens ?ex (outputFile config_default)"
    by (simp add: demo_extern_def)
  have c: "fst (main_configured ?ex config_default world0) = 0"
    using ok by (simp add: main_configured_existing [OF p] Let_def)
  have f: "files (fst (snd (main_configured ?ex config_default world0))) = files world0"
    using ok o
    by (simp add: main_configured_existing [OF p] Let_def files_show files_save
        files_calibrateCamera)
  have "files world0 (outputFile config_default) = None"
    by (simp add: world0_def)
  with ok c f show ?thesis by simp
qed

section \<open>A missing image directory\<close>

text \<open>
  C6, as the program has it.  When the configured image directory does not exist and can
  be created, it is created, the two messages are printed, and \<open>main\<close> returns 0; when
  creating it throws, the error is reported and \<open>main\<close> returns 1.  In both cases nothing
  else happens: no calibration is run (no result, no call of the solver, no other output)
  and no file is written.
\<close>

theorem missing_directory:
  assumes "imageDir cfg \<notin> paths w"
  shows "(fs_create_directories ex (imageDir cfg) \<longrightarrow>
            main_configured ex cfg w =
              (0, w\<lparr>paths := insert (imageDir cfg) (paths w),
                     cout := cout w @ [CreatedImageDirectory (imageDir cfg), PleasePlaceImages]\<rparr>,
               None)) \<and>
         (\<not> fs_create_directories ex (imageDir cfg) \<longrightarrow>
            main_configured ex cfg w =
              (1, w\<lparr>cerr := cerr w @ [ErrCouldNotCreateDirectory (imageDir cfg)]\<rparr>, None)) \<and>
         files (fst (snd (main_configured ex cfg w))) = files w \<and>
         solver_calls (fst (snd (main_configured ex cfg w))) = solver_calls w \<and>
         snd (snd (main_configured ex cfg w)) = None"
  using assms by (simp add: main_configured_def put_out_def put_err_def)

theorem missing_directory_witness:
  "imageDir missing_cfg \<notin> paths world0 \<and>
   fs_create_directories (demo_extern demo_dir 1 True True) (imageDir missing_cfg) \<and>
   main_configured (demo_extern demo_dir 1 True True) missing_cfg world0 =
     (0, world0\<lparr>paths := {''./missing'', ''./images''},
                 cout := [CreatedImageDirectory ''./missing'', PleasePlaceImages]\<rparr>, None) \<and>
   \<not> fs_create_directories (demo_extern demo_dir 1 False True) (imageDir missing_cfg) \<and>
   main_configured (demo_extern demo_dir 1 False True) missing_cfg world0 =
     (1, world0\<lparr>cerr := [ErrCouldNotCreateDirectory ''./missing'']\<rparr>, None)"
proof -
  have m: "imageDir missing_cfg \<notin> paths world0"
    by (simp add: missing_cfg_def world0_def)
  have y: "fs_create_directories (demo_extern demo_dir 1 True True) (imageDir missing_cfg)"
    by (simp add: demo_extern_def)
  have n: "\<not> fs_create_directories (demo_extern demo_dir 1 False True) (imageDir missing_cfg)"
    by (simp add: demo_extern_def)
  from missing_directory [OF m, of "demo_extern demo_dir 1 True True"] y
  have a: "main_configured (demo_extern demo_dir 1 True True) missing_cfg world0 =
     (0, world0\<lparr>paths := {''./missing'', ''./images''},
                 cout := [CreatedImageDirectory ''./missing'', PleasePlaceImages]\<rparr>, None)"
    by (simp add: missing_cfg_def world0_def)
  from missing_directory [OF m, of "demo_extern demo_dir 1 False True"] n
  have b: "main_configured (demo_extern demo_dir 1 False True) missing_cfg world0 =
     (1, world0\<lparr>cerr := [ErrCouldNotCreateDirectory ''./missing'']\<rparr>, None)"
    by (simp add: missing_cfg_def world0_def)
  from m y a n b show ?thesis by blast
qed

text \<open>
  A run whose directory is missing and cannot be created: exit code 1, and the directory
  still does not exist.
\<close>

theorem directory_creation_failure_counterexample:
  "imageDir missing_cfg \<notin> paths world0 \<and>
   fst (main_configured (demo_extern demo_dir 1 False True) missing_cfg world0) = 1 \<and>
   imageDir missing_cfg \<notin> paths (fst (snd (main_configured (demo_extern demo_dir 1 False True) missing_cfg world0)))"
  by (simp add: main_configured_def missing_cfg_def config_default_def world0_def demo_extern_def
      put_err_def)

section \<open>No observations, no solver\<close>

text \<open>
  C7.  When the correspondence set ends up empty, \<open>calibrateCamera\<close> returns the initial
  results (\<open>success\<close> false) with the error for missing images or missing detections, the
  log of solver calls is as before, and the run is the same whatever solver is plugged
  in: line 185 is not reached.
\<close>

theorem no_observations_no_solver:
  assumes "imgpoints (fst (detect_all ex dir cb w)) = []"
  shows "solver_calls (snd (calibrateCamera ex dir cb w)) = solver_calls w \<and>
         fst (calibrateCamera ex dir cb w) = results_init cb \<and>
         \<not> success (fst (calibrateCamera ex dir cb w)) \<and>
         cerr (snd (calibrateCamera ex dir cb w)) =
           cerr w @ [if find_images ex dir = [] then ErrNoImagesFound dir
                     else ErrNoCornersDetected] \<and>
         calibrateCamera (ex\<lparr>cv_calibrateCamera := s\<rparr>) dir cb w = calibrateCamera ex dir cb w"
proof -
  have a: "solver_calls (snd (calibrateCamera ex dir cb w)) = solver_calls w"
    using assms by (subst snd_calibrateCamera) (simp add: Let_def)
  have b: "fst (calibrateCamera ex dir cb w) = results_init cb"
    using assms by (simp add: fst_calibrateCamera Let_def)
  have c: "\<not> success (fst (calibrateCamera ex dir cb w))"
    using assms by (simp add: success_calibrateCamera)
  have d: "cerr (snd (calibrateCamera ex dir cb w)) =
           cerr w @ [if find_images ex dir = [] then ErrNoImagesFound dir
                     else ErrNoCornersDetected]"
    using assms by (subst snd_calibrateCamera) (simp add: Let_def)
  from a b c d calibrateCamera_without_observations [OF assms] show ?thesis by simp
qed

theorem no_observations_no_solver_witness:
  "imgpoints (fst (detect_all (demo_extern blank_dir 1 True True) ''./images'' (Size 2 1) world0)) = [] \<and>
   solver_calls (snd (calibrateCamera (demo_extern blank_dir 1 True True) ''./images'' (Size 2 1) world0)) = [] \<and>
   cerr (snd (calibrateCamera (demo_extern blank_dir 1 True True) ''./images'' (Size 2 1) world0)) =
     [ErrNoCornersDetected]"
  using no_observations_no_solver [OF blank_imgpoints, of 1 True True "Size 2 1" world0]
  by (simp add: blank_imgpoints demo_find_images blank_names world0_def)

section \<open>The subpixel refinement of a detection\<close>




section \<open>A failed write of the artifact\<close>

text \<open>
  C9.  After a successful calibration, when the output stream does not open,
  \<open>saveCalibrationResultsToJSON\<close> only reports the error on \<open>cerr\<close>; the message is in
  the error output of the run, no file changes, the results of the run are the ones
  \<open>calibrateCamera\<close> returned (\<open>success\<close> still true), and \<open>main\<close> returns 0.
\<close>

theorem write_failure_keeps_success:
  assumes dir: "imageDir cfg \<in> paths w"
    and ok: "success (fst (calibrateCamera ex (imageDir cfg)
               (Size (checkerboardWidth cfg) (checkerboardHeight cfg)) w))"
    and closed: "\<not> ofstream_opens ex (outputFile cfg)"
  shows "saveCalibrationResultsToJSON ex
           (fst (calibrateCamera ex (imageDir cfg)
              (Size (checkerboardWidth cfg) (checkerboardHeight cfg)) w)) (outputFile cfg)
           (snd (calibrateCamera ex (imageDir cfg)
              (Size (checkerboardWidth cfg) (checkerboardHeight cfg)) w)) =
         put_err (ErrCouldNotWrite (outputFile cfg))
           (snd (calibrateCamera ex (imageDir cfg)
              (Size (checkerboardWidth cfg) (checkerboardHeight cfg)) w)) \<and>
         ErrCouldNotWrite (outputFile cfg) \<in> set (cerr (fst (snd (main_configured ex cfg w)))) \<and>
         files (fst (snd (main_configured ex cfg w))) = files w \<and>
         snd (snd (main_configured ex cfg w)) =
           Some (fst (calibrateCamera ex (imageDir cfg)
              (Size (checkerboardWidth cfg) (checkerboardHeight cfg)) w)) \<and>
         fst (main_configured ex cfg w) = 0"
proof -
  let ?cb = "Size (checkerboardWidth cfg) (checkerboardHeight cfg)"
  let ?r = "fst (calibrateCamera ex (imageDir cfg) ?cb w)"
  let ?w1 = "snd (calibrateCamera ex (imageDir cfg) ?cb w)"
  note m = main_configured_existing [OF dir, of ex]
  have a: "saveCalibrationResultsToJSON ex ?r (outputFile cfg) ?w1 =
           put_err (ErrCouldNotWrite (outputFile cfg)) ?w1"
    using closed by (simp add: saveCalibrationResultsToJSON_def)
  have "ErrCouldNotWrite (outputFile cfg) \<in> set (cerr (put_err (ErrCouldNotWrite (outputFile cfg)) ?w1))"
    by (simp add: put_err_def)
  then have b: "ErrCouldNotWrite (outputFile cfg) \<in> set (cerr (fst (snd (main_configured ex cfg w))))"
    using ok cerr_show [of "put_err (ErrCouldNotWrite (outputFile cfg)) ?w1" ex ?r "imageDir cfg"]
    by (auto simp: m Let_def a)
  have c: "files (fst (snd (main_configured ex cfg w))) = files w"
    using ok closed by (simp add: m Let_def files_show files_save files_calibrateCamera)
  have d: "snd (snd (main_configured ex cfg w)) = Some ?r"
    by (simp add: m Let_def)
  have e: "fst (main_configured ex cfg w) = 0"
    using ok by (simp add: m Let_def)
  from a b c d e show ?thesis by blast
qed

theorem write_failure_keeps_success_witness:
  "imageDir config_default \<in> paths world0 \<and>
   success (fst (calibrateCamera (demo_extern demo_dir 1 True False) (imageDir config_default)
      (Size (checkerboardWidth config_default) (checkerboardHeight config_default)) world0)) \<and>
   \<not> ofstream_opens (demo_extern demo_dir 1 True False) (outputFile config_default) \<and>
   ErrCouldNotWrite ''calibration_results.json'' \<in>
     set (cerr (fst (snd (main_configured (demo_extern demo_dir 1 True False) config_default world0)))) \<and>
   files (fst (snd (main_configured (demo_extern demo_dir 1 True False) config_default world0))) =
     files world0 \<and>
   fst (main_configured (demo_extern demo_dir 1 True False) config_default world0) = 0"
proof -
  have d: "imageDir config_default = ''./images''"
    by (simp add: config_default_def)
  have p: "imageDir config_default \<in> paths world0"
    by (simp add: config_default_def world0_def)
  have ok: "success (fst (calibrateCamera (demo_extern demo_dir 1 True False) (imageDir config_default)
      (Size (checkerboardWidth config_default) (checkerboardHeight config_default)) world0))"
    by (simp add: d demo_success_any)
  have o: "\<not> ofstream_opens (demo_extern demo_dir 1 True False) (outputFile config_default)"
    by (simp add: demo_extern_def)
  have n: "outputFile config_default = ''calibration_results.json''"
    by (simp add: config_default_def)
  from write_failure_keeps_success [OF p ok o] p ok o show ?thesis
    by (simp add: n)
qed

section \<open>Observations come from full detections only\<close>

text \<open>
  C10.  The image-point lists accumulated are exactly the refined corner lists of the
  files that were read and on which the detector reported success, in order; each has
  \<open>width \<times> height\<close> points (the detector returns a full grid when it reports success,
  the refiner keeps the length); a file without a detection adds nothing, whatever the
  detector left in its output argument, and the loop goes on with the files after it.
\<close>

theorem observations_only_from_detections:
  assumes det: "\<forall>img flags cs. cv_findChessboardCorners ex img cb flags = (True, cs) \<longrightarrow>
                   length cs = nat (width cb * height cb)"
    and ref: "\<forall>img cs win zero crit. length (cv_cornerSubPix ex img cs win zero crit) = length cs"
  shows "imgpoints (fst (detect_all ex dir cb w)) = map (refined ex cb) (used_images ex dir cb) \<and>
         (\<forall>obs \<in> set (imgpoints (fst (detect_all ex dir cb w))).
            length obs = nat (width cb * height cb)) \<and>
         (\<forall>f objp n i sw. \<not> detected ex cb f \<longrightarrow>
            imgpoints (fst (process_image ex cb objp n i f sw)) = imgpoints (fst sw) \<and>
            objpoints (fst (process_image ex cb objp n i f sw)) = objpoints (fst sw)) \<and>
         (\<forall>f rest objp n i sw. \<not> detected ex cb f \<longrightarrow>
            imgpoints (fst (detect_loop ex cb objp n i (f # rest) sw)) =
            imgpoints (fst sw) @ map (refined ex cb) (filter (detected ex cb) rest))"
proof -
  have a: "imgpoints (fst (detect_all ex dir cb w)) = map (refined ex cb) (used_images ex dir cb)"
    by (simp add: imgpoints_detect_all used_images_def)
  have len: "length (refined ex cb f) = nat (width cb * height cb)" if "detected ex cb f" for f
  proof -
    from that have "fst (detection ex cb f)" by (simp add: detected_def)
    then have "detection ex cb f = (True, snd (detection ex cb f))"
      by (cases "detection ex cb f") simp
    then have "length (snd (detection ex cb f)) = nat (width cb * height cb)"
      using det unfolding detection_def by blast
    then show ?thesis using ref by (simp add: refined_def)
  qed
  have b: "\<forall>obs \<in> set (imgpoints (fst (detect_all ex dir cb w))).
            length obs = nat (width cb * height cb)"
    using len by (auto simp: a used_images_def)
  have c: "\<forall>f objp n i sw. \<not> detected ex cb f \<longrightarrow>
            imgpoints (fst (process_image ex cb objp n i f sw)) = imgpoints (fst sw) \<and>
            objpoints (fst (process_image ex cb objp n i f sw)) = objpoints (fst sw)"
    by (simp add: fst_process_image detected_def Let_def)
  have d: "\<forall>f rest objp n i sw. \<not> detected ex cb f \<longrightarrow>
            imgpoints (fst (detect_loop ex cb objp n i (f # rest) sw)) =
            imgpoints (fst sw) @ map (refined ex cb) (filter (detected ex cb) rest)"
    by (simp add: imgpoints_detect_loop del: detect_loop.simps)
  from a b c d show ?thesis by blast
qed

theorem observations_only_from_detections_witness:
  "\<not> detected (demo_extern demo_dir 1 True True) (Size 2 1) ''./images/b.png'' \<and>
   snd (detection (demo_extern demo_dir 1 True True) (Size 2 1) ''./images/b.png'') = [Point2f 5 5] \<and>
   used_images (demo_extern demo_dir 1 True True) ''./images'' (Size 2 1) = [''./images/a.png''] \<and>
   imgpoints (fst (detect_all (demo_extern demo_dir 1 True True) ''./images'' (Size 2 1) world0)) =
     [[Point2f 0 0, Point2f 0 0]] \<and>
   length [Point2f 0 0, Point2f 0 0] = nat (width (Size 2 1) * height (Size 2 1)) \<and>
   imgpoints (fst (detect_loop (demo_extern demo_dir 1 True True) (Size 2 1) (build_objp (Size 2 1)) 3 1
      [''./images/b.png'', ''./images/c.png''] (scan_init, world0))) = []"
proof -
  let ?ex = "demo_extern demo_dir 1 True True"
  have det: "\<forall>img flags cs. cv_findChessboardCorners ?ex img (Size 2 1) flags = (True, cs) \<longrightarrow>
                length cs = nat (width (Size 2 1) * height (Size 2 1))"
    by (auto simp: demo_extern_def split: demo_image.splits if_splits)
  have ref: "\<forall>img cs win zero crit. length (cv_cornerSubPix ?ex img cs win zero crit) = length cs"
    by (simp add: demo_extern_def)
  note t = observations_only_from_detections [OF det ref, of "''./images''" world0]
  have nb: "\<not> detected ?ex (Size 2 1) ''./images/b.png''"
    by (simp add: demo_detected)
  have part: "snd (detection ?ex (Size 2 1) ''./images/b.png'') = [Point2f 5 5]"
    by (simp add: detection_def gray_of_def demo_extern_def demo_dir_def)
  have u: "used_images ?ex ''./images'' (Size 2 1) = [''./images/a.png'']"
    by (simp add: used_images_def demo_find_images demo_used)
  from t have "imgpoints (fst (detect_all ?ex ''./images'' (Size 2 1) world0)) =
      map (refined ?ex (Size 2 1)) (used_images ?ex ''./images'' (Size 2 1))"
    by blast
  then have i: "imgpoints (fst (detect_all ?ex ''./images'' (Size 2 1) world0)) = [[Point2f 0 0, Point2f 0 0]]"
    by (simp add: u) (simp add: refined_def detection_def gray_of_def demo_extern_def demo_dir_def Size_def numeral_2_eq_2)
  from t have "\<forall>obs \<in> set (imgpoints (fst (detect_all ?ex ''./images'' (Size 2 1) world0))).
      length obs = nat (width (Size 2 1) * height (Size 2 1))"
    by blast
  then have l: "length [Point2f 0 0, Point2f 0 0] = nat (width (Size 2 1) * height (Size 2 1))"
    by (simp only: i) simp
  from t nb have "imgpoints (fst (detect_loop ?ex (Size 2 1) (build_objp (Size 2 1)) 3 1
      (''./images/b.png'' # [''./images/c.png'']) (scan_init, world0))) =
      imgpoints (fst (scan_init, world0)) @ map (refined ?ex (Size 2 1)) (filter (detected ?ex (Size 2 1)) [''./images/c.png''])"
    by blast
  then have c: "imgpoints (fst (detect_loop ?ex (Size 2 1) (build_objp (Size 2 1)) 3 1
      [''./images/b.png'', ''./images/c.png''] (scan_init, world0))) = []"
    by (simp add: demo_detected scan_init_def del: detect_loop.simps)
  from nb part u i l c show ?thesis by blast
qed

end
